theory Spec2Isabelle
  imports Complex_Main "HOL-Library.Multiset" "HOL-Library.Char_ord"
    "HOL-Library.List_Lexorder" "HOL-Library.Product_Lexorder"
begin

section \<open>Data model (safety\_app/models.py)\<close>

text \<open>
  Primary keys are natural numbers (an \<open>alert_id\<close> stands for the UUID of the row).
  A \<open>DateTimeField\<close> is a count of microseconds; every operation reads the clock once and
  receives that reading as its argument \<open>now\<close>. A \<open>DecimalField\<close> and a Python
  \<open>float\<close> are real numbers. A nullable column is an \<open>option\<close>.
\<close>

type_synonym user_id = nat
type_synonym uuid = nat
type_synonym datetime = int
type_synonym decimal = real

datatype status = TRIGGERED | PENDING_CANCEL | CANCELLED | DISPATCHED | RESOLVED | TIMEOUT

record auth_user =
  user_pk :: user_id
  email :: string
  is_authenticated :: bool

record user_profile =
  phone_number :: string
  emergency_keyword :: "string option"
  safe_word :: "string option"
  is_active_alert :: bool

record emergency_contact =
  contact_pk :: nat
  contact_user :: user_id
  contact_name :: string
  relationship :: string
  contact_phone_number :: string
  contact_email :: string
  priority :: int
  contact_is_active :: bool

record safe_zone =
  zone_pk :: nat
  zone_user :: user_id
  zone_name :: string
  zone_latitude :: decimal
  zone_longitude :: decimal
  radius_meters :: int
  zone_is_active :: bool

record alert =
  alert_id :: uuid
  user :: user_id
  status :: status
  triggered_at :: datetime
  trigger_method :: string
  initial_latitude :: "decimal option"
  initial_longitude :: "decimal option"
  initial_accuracy :: "real option"
  cancellation_timer_started :: "datetime option"
  cancelled_at :: "datetime option"
  cancellation_reason :: "string option"
  dispatched_at :: "datetime option"
  contacts_notified :: int
  resolved_at :: "datetime option"
  resolution_notes :: "string option"
  safe_word_attempted :: bool
  safe_word_success :: bool
  user_agent :: "string option"
  ip_address :: "string option"
  created_at :: datetime
  updated_at :: datetime

record location_track =
  track_pk :: nat
  track_alert :: uuid
  latitude :: decimal
  longitude :: decimal
  accuracy :: "real option"
  altitude :: "real option"
  speed :: "real option"
  heading :: "real option"
  timestamp :: datetime
  track_is_in_safe_zone :: bool
  nearest_safe_zone :: "nat option"

datatype channel = SMS | EMAIL | PUSH

datatype delivery_status = PENDING | SENT | FAILED | SIMULATED

record dispatch_log =
  log_alert :: uuid
  log_contact :: nat
  log_channel :: channel
  log_status :: delivery_status
  message_content :: string
  sent_at :: "datetime option"

datatype audit_action =
  ALERT_TRIGGERED | ALERT_CANCELLED | ALERT_DISPATCHED | ALERT_RESOLVED | LOCATION_UPDATED

text \<open>
  An audit row keeps the actor, the alert, the action tag, the client metadata and the time;
  its free-text description and its JSON metadata blob are not part of the model.
\<close>

record audit_log =
  audit_user :: user_id
  audit_alert :: "uuid option"
  action :: audit_action
  audit_ip_address :: "string option"
  audit_user_agent :: "string option"
  audit_timestamp :: datetime

text \<open>
  The database: one list of rows per table, in the order the engine scans them, and the
  one-to-one profile of each user as a map from the user's key.
\<close>

record db =
  alerts :: "alert list"
  profiles :: "user_id \<rightharpoonup> user_profile"
  emergency_contacts :: "emergency_contact list"
  safe_zones :: "safe_zone list"
  location_tracks :: "location_track list"
  dispatch_logs :: "dispatch_log list"
  audit_logs :: "audit_log list"

datatype error =
  DoesNotExist | RelatedObjectDoesNotExist | IntegrityError | AttributeError | ValueError

section \<open>Object-relational operations\<close>

text \<open>The statuses the code lists as active: \<open>['TRIGGERED', 'PENDING_CANCEL', 'DISPATCHED']\<close>.\<close>

definition active_statuses :: "status list" where
  "active_statuses = [TRIGGERED, PENDING_CANCEL, DISPATCHED]"

definition non_terminal :: "status \<Rightarrow> bool" where
  "non_terminal s = (s \<in> set active_statuses)"

text \<open>\<open>Alert.objects.create\<close>: inserts a row; a primary key already present is refused.\<close>

definition insert_alert :: "alert \<Rightarrow> db \<Rightarrow> error + db" where
  "insert_alert a d =
     (if alert_id a \<in> set (map alert_id (alerts d)) then Inl IntegrityError
      else Inr (d\<lparr>alerts := alerts d @ [a]\<rparr>))"

text \<open>
  \<open>alert.save()\<close>: stamps \<open>updated_at\<close> and writes every column of the object to the row
  with its primary key, inserting the row when there is none.
\<close>

definition save_alert :: "datetime \<Rightarrow> alert \<Rightarrow> db \<Rightarrow> alert \<times> db" where
  "save_alert now a d =
     (let a' = a\<lparr>updated_at := now\<rparr> in
      (a', if alert_id a \<in> set (map alert_id (alerts d))
           then d\<lparr>alerts := map (\<lambda>r. if alert_id r = alert_id a then a' else r) (alerts d)\<rparr>
           else d\<lparr>alerts := alerts d @ [a']\<rparr>))"

text \<open>
  \<open>profile = user.profile; profile.is_active_alert = flag; profile.save()\<close>. Reading the
  profile of a user who has none raises.
\<close>

definition set_is_active_alert :: "user_id \<Rightarrow> bool \<Rightarrow> db \<Rightarrow> error + db" where
  "set_is_active_alert uid flag d =
     (case profiles d uid of
        None \<Rightarrow> Inl RelatedObjectDoesNotExist
      | Some p \<Rightarrow> Inr (d\<lparr>profiles := (profiles d)(uid \<mapsto> p\<lparr>is_active_alert := flag\<rparr>)\<rparr>))"

definition create_audit_log ::
  "datetime \<Rightarrow> user_id \<Rightarrow> uuid \<Rightarrow> audit_action \<Rightarrow> string option \<Rightarrow> string option \<Rightarrow> db \<Rightarrow> db" where
  "create_audit_log now uid aid act ip ua d =
     d\<lparr>audit_logs := audit_logs d @
        [\<lparr>audit_user = uid, audit_alert = Some aid, action = act,
          audit_ip_address = ip, audit_user_agent = ua, audit_timestamp = now\<rparr>]\<rparr>"

text \<open>\<open>Alert.objects.get(alert_id=aid, user=u)\<close>: the row, or \<open>DoesNotExist\<close>.\<close>

definition get_alert_of_user :: "db \<Rightarrow> uuid \<Rightarrow> user_id \<Rightarrow> error + alert" where
  "get_alert_of_user d aid uid =
     (case find (\<lambda>a. alert_id a = aid \<and> user a = uid) (alerts d) of
        None \<Rightarrow> Inl DoesNotExist
      | Some a \<Rightarrow> Inr a)"

text \<open>\<open>Alert.objects.get(alert_id=aid)\<close>.\<close>

definition get_alert :: "db \<Rightarrow> uuid \<Rightarrow> error + alert" where
  "get_alert d aid =
     (case find (\<lambda>a. alert_id a = aid) (alerts d) of
        None \<Rightarrow> Inl DoesNotExist
      | Some a \<Rightarrow> Inr a)"

text \<open>
  A coordinate that arrives in a request is a number or is missing. Python's truth test
  \<open>if latitude\<close> holds for a number other than zero; \<open>Decimal(str(latitude))\<close> is the
  number itself.
\<close>

definition truthy_number :: "real option \<Rightarrow> bool" where
  "truthy_number x = (case x of None \<Rightarrow> False | Some v \<Rightarrow> v \<noteq> 0)"

definition to_decimal_if :: "real option \<Rightarrow> decimal option" where
  "to_decimal_if x = (if truthy_number x then x else None)"

section \<open>AlertService (safety\_app/services.py)\<close>

text \<open>The row \<open>Alert.objects.create\<close> builds: the given columns, the rest at their defaults.\<close>

definition new_alert ::
  "datetime \<Rightarrow> uuid \<Rightarrow> user_id \<Rightarrow> string \<Rightarrow> real option \<Rightarrow> real option \<Rightarrow>
   string option \<Rightarrow> string option \<Rightarrow> datetime option \<Rightarrow> alert" where
  "new_alert now new_id uid method lat lon ua ip timer =
     \<lparr>alert_id = new_id, user = uid, status = TRIGGERED, triggered_at = now,
      trigger_method = method,
      initial_latitude = to_decimal_if lat, initial_longitude = to_decimal_if lon,
      initial_accuracy = None, cancellation_timer_started = timer,
      cancelled_at = None, cancellation_reason = None, dispatched_at = None,
      contacts_notified = 0, resolved_at = None, resolution_notes = None,
      safe_word_attempted = False, safe_word_success = False,
      user_agent = ua, ip_address = ip, created_at = now, updated_at = now\<rparr>"

text \<open>
  \<open>AlertService.create_alert\<close>. \<open>new_id\<close> is the UUID drawn for the row. The function has
  no check for an alert the user already has; an exception leaves what was written before it.
\<close>

definition create_alert ::
  "datetime \<Rightarrow> uuid \<Rightarrow> db \<Rightarrow> user_id \<Rightarrow> real option \<Rightarrow> real option \<Rightarrow> string \<Rightarrow>
   string option \<Rightarrow> string option \<Rightarrow> (error + alert) \<times> db" where
  "create_alert now new_id d uid lat lon method ua ip =
     (let a = new_alert now new_id uid method lat lon ua ip (Some now) in
      case insert_alert a d of
        Inl e \<Rightarrow> (Inl e, d)
      | Inr d1 \<Rightarrow>
          (case set_is_active_alert uid True d1 of
             Inl e \<Rightarrow> (Inl e, d1)
           | Inr d2 \<Rightarrow> (Inr a, create_audit_log now uid new_id ALERT_TRIGGERED ip ua d2)))"

text \<open>
  \<open>AlertService.cancel_alert\<close>. The result is the returned value (or the exception), the
  alert object as the call leaves it, and the database.
\<close>

definition cancel_alert ::
  "datetime \<Rightarrow> db \<Rightarrow> alert \<Rightarrow> string \<Rightarrow> (error + bool) \<times> alert \<times> db" where
  "cancel_alert now d a reason =
     (if status a \<notin> set active_statuses then (Inr False, a, d)
      else
        let (a1, d1) = save_alert now
               (a\<lparr>status := CANCELLED, cancelled_at := Some now,
                  cancellation_reason := Some reason\<rparr>) d in
        case set_is_active_alert (user a) False d1 of
          Inl e \<Rightarrow> (Inl e, a1, d1)
        | Inr d2 \<Rightarrow>
            (Inr True, a1, create_audit_log now (user a) (alert_id a) ALERT_CANCELLED None None d2))"

text \<open>\<open>AlertService.resolve_alert\<close>: no test of the status.\<close>

definition resolve_alert ::
  "datetime \<Rightarrow> db \<Rightarrow> alert \<Rightarrow> string \<Rightarrow> (error + bool) \<times> alert \<times> db" where
  "resolve_alert now d a notes =
     (let (a1, d1) = save_alert now
            (a\<lparr>status := RESOLVED, resolved_at := Some now, resolution_notes := Some notes\<rparr>) d in
      case set_is_active_alert (user a) False d1 of
        Inl e \<Rightarrow> (Inl e, a1, d1)
      | Inr d2 \<Rightarrow>
          (Inr True, a1, create_audit_log now (user a) (alert_id a) ALERT_RESOLVED None None d2))"

text \<open>
  The Django settings module, the process-wide configuration: the attribute
  \<open>ALERT_CANCELLATION_TIMEOUT\<close> is set or not.
\<close>

record settings =
  ALERT_CANCELLATION_TIMEOUT :: "real option"

text \<open>\<open>getattr(settings, 'ALERT_CANCELLATION_TIMEOUT', 120)\<close>.\<close>

definition timeout_seconds :: "settings \<Rightarrow> real" where
  "timeout_seconds s = (case ALERT_CANCELLATION_TIMEOUT s of None \<Rightarrow> 120 | Some t \<Rightarrow> t)"

text \<open>\<open>(now - started).total_seconds()\<close>.\<close>

definition total_seconds :: "datetime \<Rightarrow> datetime \<Rightarrow> real" where
  "total_seconds now started = real_of_int (now - started) / 1000000"

text \<open>\<open>AlertService.check_timeout(self, alert)\<close>: its only argument is the alert.\<close>

definition check_timeout :: "settings \<Rightarrow> datetime \<Rightarrow> db \<Rightarrow> alert \<Rightarrow> bool \<times> alert \<times> db" where
  "check_timeout s now d a =
     (case cancellation_timer_started a of
        None \<Rightarrow> (False, a, d)
      | Some started \<Rightarrow>
          if total_seconds now started \<ge> timeout_seconds s \<and> status a = TRIGGERED
          then (let (a1, d1) = save_alert now (a\<lparr>status := PENDING_CANCEL\<rparr>) d in (True, a1, d1))
          else (False, a, d))"

text \<open>
  \<open>str.lower()\<close> on a string of code points below 256: the capital letters are \<open>A\<close> to
  \<open>Z\<close> and the Latin-1 capitals 192 to 222 without the multiplication sign 215; the
  small letter of each is 32 further on.
\<close>

definition is_upper :: "char \<Rightarrow> bool" where
  "is_upper c =
     (let n = (of_char c :: nat) in (65 \<le> n \<and> n \<le> 90) \<or> (192 \<le> n \<and> n \<le> 222 \<and> n \<noteq> 215))"

definition lower_char :: "char \<Rightarrow> char" where
  "lower_char c = (if is_upper c then char_of ((of_char c :: nat) + 32) else c)"

definition lower :: "string \<Rightarrow> string" where
  "lower s = map lower_char s"

text \<open>
  \<open>profile.safe_word and profile.safe_word.lower() == safe_word.lower()\<close>: a stored word
  that is null or empty ends the test before the attempt is looked at; an attempt that is
  \<open>None\<close> has no method \<open>lower\<close>.
\<close>

definition safe_word_matches :: "string option \<Rightarrow> string option \<Rightarrow> error + bool" where
  "safe_word_matches stored attempt =
     (case stored of
        None \<Rightarrow> Inr False
      | Some w \<Rightarrow>
          if w = [] then Inr False
          else (case attempt of
                  None \<Rightarrow> Inl AttributeError
                | Some s \<Rightarrow> Inr (lower w = lower s)))"

text \<open>The statements of \<open>verify_safe_word\<close> after the alert and the profile are at hand.\<close>

definition safe_word_step ::
  "datetime \<Rightarrow> db \<Rightarrow> alert \<Rightarrow> user_profile \<Rightarrow> string option \<Rightarrow> (error + bool) \<times> alert \<times> db" where
  "safe_word_step now d a p attempt =
     (let a1 = a\<lparr>safe_word_attempted := True\<rparr> in
      case safe_word_matches (safe_word p) attempt of
        Inl e \<Rightarrow> (Inl e, a1, d)
      | Inr True \<Rightarrow>
          (let (a2, d2) = save_alert now (a1\<lparr>safe_word_success := True\<rparr>) d in (Inr True, a2, d2))
      | Inr False \<Rightarrow>
          (let (a2, d2) = save_alert now a1 d in (Inr False, a2, d2)))"

text \<open>\<open>AlertService.verify_safe_word\<close>.\<close>

definition verify_safe_word ::
  "datetime \<Rightarrow> db \<Rightarrow> alert \<Rightarrow> string option \<Rightarrow> (error + bool) \<times> alert \<times> db" where
  "verify_safe_word now d a attempt =
     (case profiles d (user a) of
        None \<Rightarrow> (Inl RelatedObjectDoesNotExist, a, d)
      | Some p \<Rightarrow> safe_word_step now d a p attempt)"

section \<open>DispatchService (safety\_app/services.py)\<close>

text \<open>
  The two message templates render names, a formatted time and two links into a text.
  The rendering is a parameter: every result below holds for whatever text they produce.
\<close>

record templates =
  generate_sms_message :: "alert \<Rightarrow> emergency_contact \<Rightarrow> string"
  generate_email_message :: "alert \<Rightarrow> emergency_contact \<Rightarrow> string"

text \<open>
  \<open>alert.user.emergency_contacts.filter(is_active=True).order_by('priority')\<close>. The explicit
  \<open>order_by\<close> replaces the default ordering of the model (\<open>['priority', 'name']\<close>): the
  query sorts by priority alone, and rows of one priority come as the engine scans them.
\<close>

definition active_contacts :: "db \<Rightarrow> user_id \<Rightarrow> emergency_contact list" where
  "active_contacts d uid =
     sort_key priority (filter (\<lambda>c. contact_user c = uid \<and> contact_is_active c) (emergency_contacts d))"

definition create_dispatch_log ::
  "datetime \<Rightarrow> alert \<Rightarrow> emergency_contact \<Rightarrow> channel \<Rightarrow> string \<Rightarrow> db \<Rightarrow> dispatch_log \<times> db" where
  "create_dispatch_log now a c ch msg d =
     (let l = \<lparr>log_alert = alert_id a, log_contact = contact_pk c, log_channel = ch,
               log_status = SIMULATED, message_content = msg, sent_at = Some now\<rparr>
      in (l, d\<lparr>dispatch_logs := dispatch_logs d @ [l]\<rparr>))"

definition send_sms ::
  "templates \<Rightarrow> datetime \<Rightarrow> alert \<Rightarrow> emergency_contact \<Rightarrow> db \<Rightarrow> dispatch_log \<times> db" where
  "send_sms t now a c d = create_dispatch_log now a c SMS (generate_sms_message t a c) d"

definition send_email ::
  "templates \<Rightarrow> datetime \<Rightarrow> alert \<Rightarrow> emergency_contact \<Rightarrow> db \<Rightarrow> dispatch_log \<times> db" where
  "send_email t now a c d = create_dispatch_log now a c EMAIL (generate_email_message t a c) d"

text \<open>
  The loop \<open>for contact in contacts\<close>. Each collected log is paired with the contact object
  it holds, whose name the result reports.
\<close>

fun dispatch_loop ::
  "templates \<Rightarrow> datetime \<Rightarrow> alert \<Rightarrow> emergency_contact list \<Rightarrow>
   (emergency_contact \<times> dispatch_log) list \<Rightarrow> int \<Rightarrow> db \<Rightarrow>
   (emergency_contact \<times> dispatch_log) list \<times> int \<times> db" where
  "dispatch_loop t now a [] logs n d = (logs, n, d)"
| "dispatch_loop t now a (c # cs) logs n d =
     (let (sms_log, d1) = send_sms t now a c d;
          logs1 = logs @ [(c, sms_log)];
          (email_log, d2) = send_email t now a c d1;
          logs2 = logs1 @ [(c, email_log)]
      in dispatch_loop t now a cs logs2 (n + 1) d2)"

record dispatch_result =
  success :: bool
  message :: "string option"
  result_contacts_notified :: int
  result_dispatch_logs :: "(string \<times> channel \<times> delivery_status) list"

text \<open>\<open>DispatchService.dispatch_alert\<close>: no test of the status.\<close>

definition dispatch_alert ::
  "templates \<Rightarrow> datetime \<Rightarrow> db \<Rightarrow> alert \<Rightarrow> dispatch_result \<times> alert \<times> db" where
  "dispatch_alert t now d a =
     (let contacts = active_contacts d (user a) in
      if contacts = [] then
        (\<lparr>success = False, message = Some ''No active emergency contacts found'',
          result_contacts_notified = 0, result_dispatch_logs = []\<rparr>, a, d)
      else
        let (logs, n, d1) = dispatch_loop t now a contacts [] 0 d;
            (a1, d2) = save_alert now
               (a\<lparr>status := DISPATCHED, dispatched_at := Some now, contacts_notified := n\<rparr>) d1;
            d3 = create_audit_log now (user a) (alert_id a) ALERT_DISPATCHED None None d2
        in (\<lparr>success = True, message = None, result_contacts_notified = n,
             result_dispatch_logs =
               map (\<lambda>(c, l). (contact_name c, log_channel l, log_status l)) logs\<rparr>, a1, d3))"

section \<open>GeoSpatialService (safety\_app/services.py)\<close>

text \<open>
  \<open>haversine_distance\<close> is floating-point trigonometry. It returns a distance, or it raises
  \<open>ValueError\<close>: for two points that are nearly antipodal, rounding can take the term \<open>a\<close>
  above 1, and \<open>sqrt(1-a)\<close> then has no value. The scans below take the function as a
  parameter \<open>hav\<close> that gives a real distance or that error, and every result holds for
  whatever it gives. \<open>min_distance\<close> starts at \<open>float('inf')\<close>.
\<close>

type_synonym haversine = "real \<Rightarrow> real \<Rightarrow> real \<Rightarrow> real \<Rightarrow> error + real"

datatype pyfloat = Finite real | Infinity

fun less_than :: "real \<Rightarrow> pyfloat \<Rightarrow> bool" where
  "less_than x Infinity = True"
| "less_than x (Finite m) = (x < m)"

text \<open>
  The loop \<open>for zone in safe_zones\<close> of \<open>is_in_safe_zone\<close>, with its two variables. An
  exception of the distance leaves the loop and the function.
\<close>

fun zone_loop ::
  "(safe_zone \<Rightarrow> error + real) \<Rightarrow> safe_zone list \<Rightarrow> safe_zone option \<Rightarrow> pyfloat \<Rightarrow>
   error + (bool \<times> safe_zone option \<times> pyfloat)" where
  "zone_loop distance_to [] nearest_zone min_distance = Inr (False, nearest_zone, min_distance)"
| "zone_loop distance_to (zone # zs) nearest_zone min_distance =
     (case distance_to zone of
        Inl e \<Rightarrow> Inl e
      | Inr distance \<Rightarrow>
          let (min_distance1, nearest_zone1) =
                 (if less_than distance min_distance then (Finite distance, Some zone)
                  else (min_distance, nearest_zone))
          in if distance \<le> real_of_int (radius_meters zone)
             then Inr (True, Some zone, Finite distance)
             else zone_loop distance_to zs nearest_zone1 min_distance1)"

text \<open>\<open>user.safe_zones.filter(is_active=True)\<close>.\<close>

definition active_zones :: "db \<Rightarrow> user_id \<Rightarrow> safe_zone list" where
  "active_zones d uid = filter (\<lambda>z. zone_user z = uid \<and> zone_is_active z) (safe_zones d)"

definition zone_distance :: "haversine \<Rightarrow> real \<Rightarrow> real \<Rightarrow> safe_zone \<Rightarrow> error + real" where
  "zone_distance hav lat lon z = hav lat lon (zone_latitude z) (zone_longitude z)"

definition is_in_safe_zone ::
  "haversine \<Rightarrow> db \<Rightarrow> user_id \<Rightarrow> real \<Rightarrow> real \<Rightarrow>
   error + (bool \<times> safe_zone option \<times> pyfloat)" where
  "is_in_safe_zone hav d uid lat lon =
     zone_loop (zone_distance hav lat lon) (active_zones d uid) None Infinity"

section \<open>AlertConsumer (safety\_app/consumers.py)\<close>

text \<open>
  The consumer is bound to the user of its connection. Its database methods wrap their body
  in \<open>try ... except Exception\<close>: an exception becomes the value \<open>None\<close> or \<open>False\<close>,
  and what the body wrote before it stays written.
\<close>

record alert_data =
  data_alert_id :: uuid
  data_status :: status
  data_triggered_at :: datetime

definition consumer_create_alert ::
  "datetime \<Rightarrow> uuid \<Rightarrow> db \<Rightarrow> auth_user \<Rightarrow> real option \<Rightarrow> real option \<Rightarrow> string \<Rightarrow>
   string option \<Rightarrow> string option \<Rightarrow> alert_data option \<times> db" where
  "consumer_create_alert now new_id d u lat lon method ua ip =
     (let a = new_alert now new_id (user_pk u) method lat lon ua ip None in
      case insert_alert a d of
        Inl e \<Rightarrow> (None, d)
      | Inr d1 \<Rightarrow>
          (case set_is_active_alert (user_pk u) True d1 of
             Inl e \<Rightarrow> (None, d1)
           | Inr d2 \<Rightarrow>
               (Some \<lparr>data_alert_id = alert_id a, data_status = status a,
                      data_triggered_at = triggered_at a\<rparr>,
                create_audit_log now (user_pk u) new_id ALERT_TRIGGERED ip ua d2)))"

text \<open>A request names its alert, or the key is missing: no row has the key \<open>None\<close>.\<close>

definition lookup_alert_of_user :: "db \<Rightarrow> uuid option \<Rightarrow> user_id \<Rightarrow> error + alert" where
  "lookup_alert_of_user d aid uid =
     (case aid of None \<Rightarrow> Inl DoesNotExist | Some i \<Rightarrow> get_alert_of_user d i uid)"

text \<open>\<open>AlertConsumer.cancel_alert\<close>: no test of the status.\<close>

definition consumer_cancel_alert ::
  "datetime \<Rightarrow> db \<Rightarrow> auth_user \<Rightarrow> uuid option \<Rightarrow> string \<Rightarrow> bool \<times> db" where
  "consumer_cancel_alert now d u aid reason =
     (case lookup_alert_of_user d aid (user_pk u) of
        Inl e \<Rightarrow> (False, d)
      | Inr a \<Rightarrow>
          let (a1, d1) = save_alert now
                 (a\<lparr>status := CANCELLED, cancelled_at := Some now,
                    cancellation_reason := Some reason\<rparr>) d in
          case set_is_active_alert (user_pk u) False d1 of
            Inl e \<Rightarrow> (False, d1)
          | Inr d2 \<Rightarrow>
              (True, create_audit_log now (user_pk u) (alert_id a) ALERT_CANCELLED None None d2))"

definition consumer_verify_safe_word ::
  "datetime \<Rightarrow> db \<Rightarrow> auth_user \<Rightarrow> uuid option \<Rightarrow> string option \<Rightarrow> bool \<times> db" where
  "consumer_verify_safe_word now d u aid attempt =
     (case lookup_alert_of_user d aid (user_pk u) of
        Inl e \<Rightarrow> (False, d)
      | Inr a \<Rightarrow>
          (case profiles d (user_pk u) of
             None \<Rightarrow> (False, d)
           | Some p \<Rightarrow>
               (case safe_word_step now d a p attempt of
                  (Inl e, a1, d1) \<Rightarrow> (False, d1)
                | (Inr b, a1, d1) \<Rightarrow> (b, d1))))"

text \<open>
  \<open>AlertConsumer.check_safe_zone\<close>: the consumer's own scan, with the same formula written
  out in its loop. It keeps no nearest zone and returns no distance.
\<close>

fun check_zone_loop ::
  "(safe_zone \<Rightarrow> error + real) \<Rightarrow> safe_zone list \<Rightarrow> error + (bool \<times> safe_zone option)" where
  "check_zone_loop distance_to [] = Inr (False, None)"
| "check_zone_loop distance_to (zone # zs) =
     (case distance_to zone of
        Inl e \<Rightarrow> Inl e
      | Inr distance \<Rightarrow>
          if distance \<le> real_of_int (radius_meters zone) then Inr (True, Some zone)
          else check_zone_loop distance_to zs)"

definition check_safe_zone ::
  "haversine \<Rightarrow> db \<Rightarrow> auth_user \<Rightarrow> real \<Rightarrow> real \<Rightarrow> error + (bool \<times> safe_zone option)" where
  "check_safe_zone hav d u lat lon =
     check_zone_loop (zone_distance hav lat lon) (active_zones d (user_pk u))"

record location_data =
  data_id :: nat
  data_latitude :: real
  data_longitude :: real
  data_accuracy :: "real option"
  data_timestamp :: datetime
  data_is_in_safe_zone :: bool

text \<open>
  \<open>AlertConsumer.save_location_track\<close>; the new row takes the next key of its table. An
  exception of the scan is caught like the others, before anything is written.
\<close>

definition save_location_track ::
  "haversine \<Rightarrow> datetime \<Rightarrow> db \<Rightarrow> auth_user \<Rightarrow> uuid option \<Rightarrow>
   real \<Rightarrow> real \<Rightarrow> real option \<Rightarrow> real option \<Rightarrow> real option \<Rightarrow> real option \<Rightarrow>
   location_data option \<times> db" where
  "save_location_track hav now d u aid lat lon acc alt spd hdg =
     (case lookup_alert_of_user d aid (user_pk u) of
        Inl e \<Rightarrow> (None, d)
      | Inr a \<Rightarrow>
          (case check_safe_zone hav d u lat lon of
             Inl e \<Rightarrow> (None, d)
           | Inr (inside, nearest_zone) \<Rightarrow>
               let track = \<lparr>track_pk = Suc (length (location_tracks d)), track_alert = alert_id a,
                            latitude = lat, longitude = lon, accuracy = acc, altitude = alt,
                            speed = spd, heading = hdg, timestamp = now,
                            track_is_in_safe_zone = inside,
                            nearest_safe_zone = map_option zone_pk nearest_zone\<rparr>;
                   d1 = d\<lparr>location_tracks := location_tracks d @ [track]\<rparr>;
                   d2 = create_audit_log now (user_pk u) (alert_id a) LOCATION_UPDATED None None d1
               in (Some \<lparr>data_id = track_pk track, data_latitude = latitude track,
                         data_longitude = longitude track, data_accuracy = accuracy track,
                         data_timestamp = timestamp track,
                         data_is_in_safe_zone = track_is_in_safe_zone track\<rparr>, d2)))"

text \<open>
  What a handler emits: messages to its own client, and a \<open>group_send\<close> to the monitor group
  of an alert.
\<close>

datatype outbound =
  Send_error string "uuid option"
| Send_location_saved location_data
| Send_alert_triggered alert_data
| Send_alert_cancelled string "uuid option"
| Send_safe_word_result bool "uuid option"
| Group_send "uuid option" location_data

text \<open>\<open>handle_location_update\<close>; \<open>all([alert_id, latitude, longitude])\<close> is a truth test of each.\<close>

definition handle_location_update ::
  "haversine \<Rightarrow> datetime \<Rightarrow> db \<Rightarrow> auth_user \<Rightarrow> uuid option \<Rightarrow>
   real option \<Rightarrow> real option \<Rightarrow> real option \<Rightarrow> real option \<Rightarrow> real option \<Rightarrow> real option \<Rightarrow>
   outbound list \<times> db" where
  "handle_location_update hav now d u aid lat lon acc alt spd hdg =
     (case (aid, lat, lon) of
        (Some i, Some la, Some lo) \<Rightarrow>
          if la \<noteq> 0 \<and> lo \<noteq> 0 then
            (case save_location_track hav now d u aid la lo acc alt spd hdg of
               (None, d1) \<Rightarrow> ([], d1)
             | (Some location, d1) \<Rightarrow>
                 ([Group_send aid location, Send_location_saved location], d1))
          else ([Send_error ''Missing required location data'' None], d)
      | _ \<Rightarrow> ([Send_error ''Missing required location data'' None], d))"

definition handle_alert_trigger ::
  "datetime \<Rightarrow> uuid \<Rightarrow> db \<Rightarrow> auth_user \<Rightarrow> real option \<Rightarrow> real option \<Rightarrow> string option \<Rightarrow>
   string option \<Rightarrow> string option \<Rightarrow> outbound list \<times> db" where
  "handle_alert_trigger now new_id d u lat lon method ua ip =
     (let trigger_method = (case method of None \<Rightarrow> ''panic_button'' | Some m \<Rightarrow> m) in
      case consumer_create_alert now new_id d u lat lon trigger_method ua ip of
        (None, d1) \<Rightarrow> ([], d1)
      | (Some data, d1) \<Rightarrow> ([Send_alert_triggered data], d1))"

definition handle_alert_cancel ::
  "datetime \<Rightarrow> db \<Rightarrow> auth_user \<Rightarrow> uuid option \<Rightarrow> string option \<Rightarrow> outbound list \<times> db" where
  "handle_alert_cancel now d u aid reason =
     (let r = (case reason of None \<Rightarrow> [] | Some x \<Rightarrow> x) in
      case consumer_cancel_alert now d u aid r of
        (True, d1) \<Rightarrow> ([Send_alert_cancelled ''Alert cancelled successfully'' aid], d1)
      | (False, d1) \<Rightarrow> ([Send_error ''Failed to cancel alert'' aid], d1))"

definition handle_safe_word_check ::
  "datetime \<Rightarrow> db \<Rightarrow> auth_user \<Rightarrow> uuid option \<Rightarrow> string option \<Rightarrow> outbound list \<times> db" where
  "handle_safe_word_check now d u aid attempt =
     (case consumer_verify_safe_word now d u aid attempt of
        (is_valid, d1) \<Rightarrow> ([Send_safe_word_result is_valid aid], d1))"

text \<open>The inbound messages of the reporter channel, by their \<open>type\<close> field.\<close>

datatype inbound =
  Location_update "uuid option" "real option" "real option" "real option" "real option"
    "real option" "real option"
| Alert_trigger "real option" "real option" "string option" "string option" "string option"
| Alert_cancel "uuid option" "string option"
| Safe_word_check "uuid option" "string option"
| Other_type

fun receive ::
  "haversine \<Rightarrow> datetime \<Rightarrow> uuid \<Rightarrow> auth_user \<Rightarrow> inbound \<Rightarrow> db \<Rightarrow>
   outbound list \<times> db" where
  "receive hav now new_id u (Location_update aid lat lon acc alt spd hdg) d =
     handle_location_update hav now d u aid lat lon acc alt spd hdg"
| "receive hav now new_id u (Alert_trigger lat lon method ua ip) d =
     handle_alert_trigger now new_id d u lat lon method ua ip"
| "receive hav now new_id u (Alert_cancel aid reason) d = handle_alert_cancel now d u aid reason"
| "receive hav now new_id u (Safe_word_check aid attempt) d =
     handle_safe_word_check now d u aid attempt"
| "receive hav now new_id u Other_type d = ([], d)"

section \<open>MonitorConsumer (safety\_app/consumers.py)\<close>

text \<open>
  \<open>verify_monitor_permission\<close>: the owner, or a user whose email is that of a row of the
  owner's \<open>emergency_contacts\<close>; the query has no filter on \<open>is_active\<close>.
\<close>

definition verify_monitor_permission :: "db \<Rightarrow> auth_user \<Rightarrow> uuid \<Rightarrow> bool" where
  "verify_monitor_permission d u aid =
     (case get_alert d aid of
        Inl e \<Rightarrow> False
      | Inr a \<Rightarrow>
          if user a = user_pk u then True
          else filter (\<lambda>c. contact_user c = user a \<and> contact_email c = email u)
                 (emergency_contacts d) \<noteq> [])"

datatype connection = Closed | Accepted uuid

text \<open>\<open>MonitorConsumer.connect\<close>: closes, or joins the monitor group of the alert.\<close>

definition monitor_connect :: "db \<Rightarrow> auth_user \<Rightarrow> uuid \<Rightarrow> connection" where
  "monitor_connect d u aid =
     (if \<not> is_authenticated u then Closed
      else if \<not> verify_monitor_permission d u aid then Closed
      else Accepted aid)"

section \<open>trigger\_alert\_view (safety\_app/views.py)\<close>

record request_meta =
  HTTP_USER_AGENT :: "string option"
  HTTP_X_FORWARDED_FOR :: "string option"
  REMOTE_ADDR :: "string option"

definition get_client_ip :: "request_meta \<Rightarrow> string option" where
  "get_client_ip m =
     (case HTTP_X_FORWARDED_FOR m of
        None \<Rightarrow> REMOTE_ADDR m
      | Some x \<Rightarrow> if x = [] then REMOTE_ADDR m else Some (takeWhile (\<lambda>c. c \<noteq> CHR '','') x))"

record trigger_body =
  body_latitude :: "real option"
  body_longitude :: "real option"
  body_trigger_method :: "string option"

datatype json_response =
  Already_active uuid
| Triggered uuid status
| Server_error

text \<open>
  \<open>Alert.objects.filter(user=u, status__in=[...]).first()\<close>, under the model's ordering
  \<open>['-triggered_at']\<close>.
\<close>

definition first_active_alert :: "db \<Rightarrow> user_id \<Rightarrow> alert option" where
  "first_active_alert d uid =
     (case sort_key (\<lambda>a. - triggered_at a)
             (filter (\<lambda>a. user a = uid \<and> status a \<in> set active_statuses) (alerts d)) of
        [] \<Rightarrow> None
      | a # _ \<Rightarrow> Some a)"

text \<open>
  \<open>trigger_alert_view\<close>, for the logged-in user \<open>u\<close>; \<open>body\<close> is \<open>None\<close> when the request
  body is not JSON. The responses are those of status 400, 200 and 500.
\<close>

definition trigger_alert_view ::
  "datetime \<Rightarrow> uuid \<Rightarrow> db \<Rightarrow> auth_user \<Rightarrow> trigger_body option \<Rightarrow> request_meta \<Rightarrow>
   json_response \<times> db" where
  "trigger_alert_view now new_id d u body m =
     (case body of
        None \<Rightarrow> (Server_error, d)
      | Some b \<Rightarrow>
          (case first_active_alert d (user_pk u) of
             Some active_alert \<Rightarrow> (Already_active (alert_id active_alert), d)
           | None \<Rightarrow>
               (case create_alert now new_id d (user_pk u) (body_latitude b) (body_longitude b)
                       (case body_trigger_method b of None \<Rightarrow> ''panic_button'' | Some x \<Rightarrow> x)
                       (HTTP_USER_AGENT m) (get_client_ip m) of
                  (Inl e, d1) \<Rightarrow> (Server_error, d1)
                | (Inr a, d1) \<Rightarrow> (Triggered (alert_id a) (status a), d1))))"

section \<open>Sample data\<close>

text \<open>One user with a profile and the safe word \<open>Blue42\<close>, her alert, and her contacts.\<close>

definition ex_user :: auth_user where
  "ex_user = \<lparr>user_pk = 1, email = ''asha@example.org'', is_authenticated = True\<rparr>"

definition ex_profile :: user_profile where
  "ex_profile = \<lparr>phone_number = ''+919876543210'', emergency_keyword = None,
                 safe_word = Some ''Blue42'', is_active_alert = True\<rparr>"

definition ex_alert :: "status \<Rightarrow> alert" where
  "ex_alert s = (new_alert 0 7 1 ''panic_button'' None None None None (Some 0))\<lparr>status := s\<rparr>"

definition ex_contact :: "nat \<Rightarrow> string \<Rightarrow> int \<Rightarrow> bool \<Rightarrow> emergency_contact" where
  "ex_contact k n p act =
     \<lparr>contact_pk = k, contact_user = 1, contact_name = n, relationship = ''friend'',
      contact_phone_number = ''+911234567890'', contact_email = n @ ''@example.org'',
      priority = p, contact_is_active = act\<rparr>"

definition ex_db :: "alert list \<Rightarrow> emergency_contact list \<Rightarrow> db" where
  "ex_db as cs =
     \<lparr>alerts = as, profiles = [1 \<mapsto> ex_profile], emergency_contacts = cs, safe_zones = [],
      location_tracks = [], dispatch_logs = [], audit_logs = []\<rparr>"

definition ex_templates :: templates where
  "ex_templates =
     \<lparr>generate_sms_message = (\<lambda>a c. ''SMS to '' @ contact_name c),
      generate_email_message = (\<lambda>a c. ''Dear '' @ contact_name c)\<rparr>"

text \<open>
  A distance function for the examples: it raises for a point on the opposite meridian and
  otherwise gives 111 km for each degree.
\<close>

definition ex_haversine :: haversine where
  "ex_haversine lat1 lon1 lat2 lon2 =
     (if \<bar>lon2 - lon1\<bar> = 180 then Inl ValueError
      else Inr (111000 * (\<bar>lat2 - lat1\<bar> + \<bar>lon2 - lon1\<bar>)))"

text \<open>A second user, whose email is that of the contact named \<open>meera\<close>.\<close>

definition ex_guest :: auth_user where
  "ex_guest = \<lparr>user_pk = 2, email = ''meera@example.org'', is_authenticated = True\<rparr>"

text \<open>Safe zones of the user.\<close>

definition ex_zone :: "nat \<Rightarrow> string \<Rightarrow> real \<Rightarrow> real \<Rightarrow> int \<Rightarrow> safe_zone" where
  "ex_zone k n lat lon r =
     \<lparr>zone_pk = k, zone_user = 1, zone_name = n, zone_latitude = lat, zone_longitude = lon,
      radius_meters = r, zone_is_active = True\<rparr>"

definition ex_zone_db :: "safe_zone list \<Rightarrow> db" where
  "ex_zone_db zs = (ex_db [ex_alert TRIGGERED] [])\<lparr>safe_zones := zs\<rparr>"

section \<open>Notions of the specification\<close>

text \<open>The terminal states, as the specification names them.\<close>

definition terminal :: "status \<Rightarrow> bool" where
  "terminal s = (s = CANCELLED \<or> s = RESOLVED \<or> s = TIMEOUT)"

text \<open>The alerts of a user that are not in a terminal state.\<close>

definition active_alerts_of :: "db \<Rightarrow> user_id \<Rightarrow> alert list" where
  "active_alerts_of d uid = filter (\<lambda>a. user a = uid \<and> non_terminal (status a)) (alerts d)"

text \<open>The rows that \<open>_send_sms\<close> and \<open>_send_email\<close> write for a contact.\<close>

definition sms_log_of :: "templates \<Rightarrow> datetime \<Rightarrow> alert \<Rightarrow> emergency_contact \<Rightarrow> dispatch_log" where
  "sms_log_of t now a c =
     \<lparr>log_alert = alert_id a, log_contact = contact_pk c, log_channel = SMS,
      log_status = SIMULATED, message_content = generate_sms_message t a c, sent_at = Some now\<rparr>"

definition email_log_of :: "templates \<Rightarrow> datetime \<Rightarrow> alert \<Rightarrow> emergency_contact \<Rightarrow> dispatch_log" where
  "email_log_of t now a c =
     \<lparr>log_alert = alert_id a, log_contact = contact_pk c, log_channel = EMAIL,
      log_status = SIMULATED, message_content = generate_email_message t a c, sent_at = Some now\<rparr>"

text \<open>
  Equality up to case: at each position the two characters are the same, or one is a capital
  letter and the other its small letter.
\<close>

definition differ_in_case_only :: "char \<Rightarrow> char \<Rightarrow> bool" where
  "differ_in_case_only c d =
     (c = d \<or> (is_upper c \<and> (of_char d :: nat) = of_char c + 32)
            \<or> (is_upper d \<and> (of_char c :: nat) = of_char d + 32))"

definition equal_ignoring_case :: "string \<Rightarrow> string \<Rightarrow> bool" where
  "equal_ignoring_case s t = list_all2 differ_in_case_only s t"

section \<open>Rows and their keys\<close>

lemma find_append_fresh:
  "\<forall>x \<in> set xs. \<not> P x \<Longrightarrow> P a \<Longrightarrow> find P (xs @ [a]) = Some a"
  by (induction xs) auto

lemma find_append_other:
  "\<not> P a \<Longrightarrow> find P (xs @ [a]) = find P xs"
  by (induction xs) auto

lemma find_map_replace:
  "alert_id a' = i \<Longrightarrow> i \<in> set (map alert_id xs) \<Longrightarrow>
   find (\<lambda>r. alert_id r = i) (map (\<lambda>r. if alert_id r = i then a' else r) xs) = Some a'"
  by (induction xs) auto

lemma find_map_other:
  "j \<noteq> i \<Longrightarrow> alert_id a' = i \<Longrightarrow>
   find (\<lambda>r. alert_id r = j) (map (\<lambda>r. if alert_id r = i then a' else r) xs)
     = find (\<lambda>r. alert_id r = j) xs"
  by (induction xs) auto

lemma fst_save_alert [simp]: "fst (save_alert now a d) = a\<lparr>updated_at := now\<rparr>"
  by (simp add: save_alert_def Let_def)

text \<open>After \<open>alert.save()\<close> the row of the alert is the object, and no other row changed.\<close>

lemma get_alert_saved:
  "get_alert (snd (save_alert now a d)) (alert_id a) = Inr (a\<lparr>updated_at := now\<rparr>)"
proof (cases "alert_id a \<in> set (map alert_id (alerts d))")
  case True
  then show ?thesis
    using find_map_replace [of "a\<lparr>updated_at := now\<rparr>" "alert_id a" "alerts d"]
    by (simp add: save_alert_def Let_def get_alert_def)
next
  case False
  then have "\<forall>x \<in> set (alerts d). \<not> alert_id x = alert_id a" by (metis image_eqI set_map)
  then have "find (\<lambda>r. alert_id r = alert_id a) (alerts d @ [a\<lparr>updated_at := now\<rparr>])
               = Some (a\<lparr>updated_at := now\<rparr>)"
    by (rule find_append_fresh) simp
  with False show ?thesis by (simp add: save_alert_def Let_def get_alert_def)
qed

lemma get_alert_save_other:
  "j \<noteq> alert_id a \<Longrightarrow> get_alert (snd (save_alert now a d)) j = get_alert d j"
  using find_map_other [of j "alert_id a" "a\<lparr>updated_at := now\<rparr>" "alerts d"]
    find_append_other [of "\<lambda>r. alert_id r = j" "a\<lparr>updated_at := now\<rparr>" "alerts d"]
  by (simp add: save_alert_def Let_def get_alert_def)

lemma get_alert_inserted:
  assumes "alert_id a \<notin> set (map alert_id (alerts d))"
  shows "get_alert (d\<lparr>alerts := alerts d @ [a]\<rparr>) (alert_id a) = Inr a"
proof -
  have "\<forall>x \<in> set (alerts d). \<not> alert_id x = alert_id a"
    using assms by (metis image_eqI set_map)
  then have "find (\<lambda>r. alert_id r = alert_id a) (alerts d @ [a]) = Some a"
    by (rule find_append_fresh) simp
  then show ?thesis by (simp add: get_alert_def)
qed

lemma get_alert_audit [simp]:
  "get_alert (create_audit_log now uid aid act ip ua d) i = get_alert d i"
  by (simp add: get_alert_def create_audit_log_def)

lemma get_alert_profiles [simp]: "get_alert (d\<lparr>profiles := m\<rparr>) i = get_alert d i"
  by (simp add: get_alert_def)

lemma alert_id_new_alert [simp]:
  "alert_id (new_alert now new_id uid m lat lon ua ip timer) = new_id"
  by (simp add: new_alert_def)

section \<open>Dispatch with no active contact\<close>

lemma active_contacts_empty:
  assumes "\<forall>c \<in> set (emergency_contacts d). contact_user c = uid \<longrightarrow> \<not> contact_is_active c"
  shows "active_contacts d uid = []"
proof -
  have "filter (\<lambda>c. contact_user c = uid \<and> contact_is_active c) (emergency_contacts d) = []"
    using assms by (auto simp: filter_empty_conv)
  then show ?thesis by (simp add: active_contacts_def)
qed

text \<open>
  Claim C6. When the owner of the alert has no active emergency contact, \<open>dispatch_alert\<close>
  returns the unsuccessful result (\<open>success = False\<close>, zero contacts notified, no logs)
  and leaves the alert object and the whole database, its dispatch logs included, as they
  were.
\<close>

theorem dispatch_without_active_contacts:
  assumes "\<forall>c \<in> set (emergency_contacts d). contact_user c = user a \<longrightarrow> \<not> contact_is_active c"
  shows "dispatch_alert t now d a =
           (\<lparr>success = False, message = Some ''No active emergency contacts found'',
             result_contacts_notified = 0, result_dispatch_logs = []\<rparr>, a, d)"
  using active_contacts_empty [OF assms] by (simp add: dispatch_alert_def)

theorem dispatch_without_active_contacts_witness:
  "active_contacts (ex_db [ex_alert TRIGGERED] [ex_contact 1 ''Meera'' 1 False]) 1 = []
   \<and> success (fst (dispatch_alert ex_templates 5
         (ex_db [ex_alert TRIGGERED] [ex_contact 1 ''Meera'' 1 False]) (ex_alert TRIGGERED))) = False
   \<and> dispatch_logs (snd (snd (dispatch_alert ex_templates 5
         (ex_db [ex_alert TRIGGERED] [ex_contact 1 ''Meera'' 1 False]) (ex_alert TRIGGERED)))) = []
   \<and> status (fst (snd (dispatch_alert ex_templates 5
         (ex_db [ex_alert TRIGGERED] [ex_contact 1 ''Meera'' 1 False]) (ex_alert TRIGGERED)))) = TRIGGERED"
proof -
  have h: "\<forall>c \<in> set (emergency_contacts (ex_db [ex_alert TRIGGERED] [ex_contact 1 ''Meera'' 1 False])).
       contact_user c = user (ex_alert TRIGGERED) \<longrightarrow> \<not> contact_is_active c"
    by (simp add: ex_db_def ex_contact_def)
  show ?thesis
    using dispatch_without_active_contacts [OF h, of ex_templates 5]
    by (simp add: ex_db_def ex_alert_def new_alert_def active_contacts_def ex_contact_def)
qed

section \<open>The cancellation timeout\<close>

text \<open>
  Claim C7, as the code has it. \<open>check_timeout\<close> has no timeout argument: the threshold is
  the attribute \<open>ALERT_CANCELLATION_TIMEOUT\<close> of the settings module, and 120 seconds when
  the attribute is not set. It returns true exactly when the status is \<open>TRIGGERED\<close>, the
  timer was started and the seconds elapsed since then reach that threshold; it then sets the
  status to \<open>PENDING_CANCEL\<close> and saves the alert. In every other case it returns false and
  leaves the alert object and the database as they were.
\<close>

theorem check_timeout_from_settings:
  "(fst (check_timeout s now d a) \<longleftrightarrow>
      status a = TRIGGERED \<and>
      (\<exists>started. cancellation_timer_started a = Some started \<and>
         (case ALERT_CANCELLATION_TIMEOUT s of None \<Rightarrow> 120 | Some t \<Rightarrow> t)
           \<le> real_of_int (now - started) / 1000000))
   \<and> (fst (check_timeout s now d a) \<longrightarrow>
        fst (snd (check_timeout s now d a)) = a\<lparr>status := PENDING_CANCEL, updated_at := now\<rparr>
        \<and> get_alert (snd (snd (check_timeout s now d a))) (alert_id a)
             = Inr (a\<lparr>status := PENDING_CANCEL, updated_at := now\<rparr>))
   \<and> (\<not> fst (check_timeout s now d a) \<longrightarrow> snd (check_timeout s now d a) = (a, d))"
  using get_alert_saved [of now "a\<lparr>status := PENDING_CANCEL\<rparr>" d]
  by (auto simp: check_timeout_def timeout_seconds_def total_seconds_def split_beta Let_def
           split: option.splits)

theorem check_timeout_from_settings_witness:
  "fst (check_timeout \<lparr>ALERT_CANCELLATION_TIMEOUT = None\<rparr> 120000000
          (ex_db [ex_alert TRIGGERED] []) (ex_alert TRIGGERED))
   \<and> get_alert (snd (snd (check_timeout \<lparr>ALERT_CANCELLATION_TIMEOUT = None\<rparr> 120000000
          (ex_db [ex_alert TRIGGERED] []) (ex_alert TRIGGERED)))) 7
        = Inr ((ex_alert TRIGGERED)\<lparr>status := PENDING_CANCEL, updated_at := 120000000\<rparr>)
   \<and> \<not> fst (check_timeout \<lparr>ALERT_CANCELLATION_TIMEOUT = None\<rparr> 119999999
          (ex_db [ex_alert TRIGGERED] []) (ex_alert TRIGGERED))
   \<and> snd (check_timeout \<lparr>ALERT_CANCELLATION_TIMEOUT = None\<rparr> 119999999
          (ex_db [ex_alert TRIGGERED] []) (ex_alert TRIGGERED))
        = (ex_alert TRIGGERED, ex_db [ex_alert TRIGGERED] [])"
  using check_timeout_from_settings [of "\<lparr>ALERT_CANCELLATION_TIMEOUT = None\<rparr>" 120000000
          "ex_db [ex_alert TRIGGERED] []" "ex_alert TRIGGERED"]
        check_timeout_from_settings [of "\<lparr>ALERT_CANCELLATION_TIMEOUT = None\<rparr>" 119999999
          "ex_db [ex_alert TRIGGERED] []" "ex_alert TRIGGERED"]
  by (simp add: ex_alert_def new_alert_def)

text \<open>
  The claim as written makes the outcome depend on the alert, the clock and an argument of the
  caller. For one alert, triggered 90 seconds ago, the outcome follows the settings module
  instead: true where it sets 60 seconds, false where it sets nothing.
\<close>

theorem check_timeout_explicit_parameter_counterexample:
  "fst (check_timeout \<lparr>ALERT_CANCELLATION_TIMEOUT = Some 60\<rparr> 90000000
          (ex_db [ex_alert TRIGGERED] []) (ex_alert TRIGGERED)) = True
   \<and> fst (check_timeout \<lparr>ALERT_CANCELLATION_TIMEOUT = None\<rparr> 90000000
          (ex_db [ex_alert TRIGGERED] []) (ex_alert TRIGGERED)) = False"
  by (simp add: check_timeout_def timeout_seconds_def total_seconds_def ex_alert_def
        new_alert_def split_beta)

section \<open>A coordinate of zero\<close>

lemma create_alert_stores:
  assumes "new_id \<notin> set (map alert_id (alerts d))"
  shows "get_alert (snd (create_alert now new_id d uid lat lon m ua ip)) new_id
           = Inr (new_alert now new_id uid m lat lon ua ip (Some now))"
  using assms get_alert_inserted [of "new_alert now new_id uid m lat lon ua ip (Some now)" d]
  by (auto simp: create_alert_def insert_alert_def set_is_active_alert_def Let_def
           split: option.splits sum.splits)

lemma consumer_create_alert_stores:
  assumes "new_id \<notin> set (map alert_id (alerts d))"
  shows "get_alert (snd (consumer_create_alert now new_id d u lat lon m ua ip)) new_id
           = Inr (new_alert now new_id (user_pk u) m lat lon ua ip None)"
  using assms get_alert_inserted [of "new_alert now new_id (user_pk u) m lat lon ua ip None" d]
  by (auto simp: consumer_create_alert_def insert_alert_def set_is_active_alert_def Let_def
           split: option.splits sum.splits)

lemma new_alert_zero_latitude:
  "initial_latitude (new_alert now new_id uid m (Some 0) lon ua ip timer) = None"
  by (simp add: new_alert_def to_decimal_if_def truthy_number_def)

lemma new_alert_zero_longitude:
  "initial_longitude (new_alert now new_id uid m lat (Some 0) ua ip timer) = None"
  by (simp add: new_alert_def to_decimal_if_def truthy_number_def)

lemma location_update_zero:
  assumes "lat = Some 0 \<or> lon = Some 0"
  shows "handle_location_update hav now d u aid lat lon acc alt spd hdg =
           ([Send_error ''Missing required location data'' None], d)"
  using assms by (auto simp: handle_location_update_def split: option.splits)

text \<open>
  Claim C10. With a fresh key for the new row, the alert that \<open>AlertService.create_alert\<close>
  stores, and the one that \<open>AlertConsumer.create_alert\<close> stores, has a null
  \<open>initial_latitude\<close> when the latitude given is 0, and a null \<open>initial_longitude\<close> when the
  longitude given is 0. A \<open>location_update\<close> message whose latitude or longitude is 0 gets
  the reply \<open>Missing required location data\<close> and leaves the database, its location tracks
  included, as it was.
\<close>

theorem zero_coordinate_is_absent:
  assumes "new_id \<notin> set (map alert_id (alerts d))"
  shows "(\<exists>a. get_alert (snd (create_alert now new_id d uid lat lon m ua ip)) new_id = Inr a
            \<and> (lat = Some 0 \<longrightarrow> initial_latitude a = None)
            \<and> (lon = Some 0 \<longrightarrow> initial_longitude a = None))
       \<and> (\<exists>a. get_alert (snd (consumer_create_alert now new_id d u lat lon m ua ip)) new_id = Inr a
            \<and> (lat = Some 0 \<longrightarrow> initial_latitude a = None)
            \<and> (lon = Some 0 \<longrightarrow> initial_longitude a = None))
       \<and> (lat = Some 0 \<or> lon = Some 0 \<longrightarrow>
            handle_location_update hav now d u aid lat lon acc alt spd hdg =
              ([Send_error ''Missing required location data'' None], d))"
  using create_alert_stores [OF assms] consumer_create_alert_stores [OF assms]
    location_update_zero new_alert_zero_latitude new_alert_zero_longitude
  by auto

theorem zero_coordinate_is_absent_witness:
  "7 \<notin> set (map alert_id (alerts (ex_db [] [])))
   \<and> (\<exists>a. get_alert (snd (create_alert 5 7 (ex_db [] []) 1 (Some 0) (Some 77)
                ''panic_button'' None None)) 7 = Inr a
         \<and> initial_latitude a = None)
   \<and> (\<exists>a. get_alert (snd (consumer_create_alert 5 7 (ex_db [] []) ex_user (Some 0) (Some 77)
                ''panic_button'' None None)) 7 = Inr a
         \<and> initial_latitude a = None)
   \<and> handle_location_update ex_haversine 5 (ex_db [] []) ex_user (Some 7) (Some 0) (Some 77)
        None None None None
        = ([Send_error ''Missing required location data'' None], ex_db [] [])"
proof -
  have h: "7 \<notin> set (map alert_id (alerts (ex_db [] [])))" by (simp add: ex_db_def)
  show ?thesis
    using h zero_coordinate_is_absent [OF h, of 5 1 "Some 0" "Some 77" "''panic_button''" None None
        ex_user ex_haversine "Some 7" None None None None]
    by simp
qed

section \<open>Cancelling and resolving\<close>

lemma terminal_iff: "terminal s \<longleftrightarrow> \<not> non_terminal s"
  by (cases s) (simp_all add: terminal_def non_terminal_def active_statuses_def)

text \<open>\<open>AlertService.cancel_alert\<close> refuses an alert that is not active, and changes nothing.\<close>

lemma cancel_alert_terminal:
  "\<not> non_terminal (status a) \<Longrightarrow> cancel_alert now d a reason = (Inr False, a, d)"
  by (simp add: cancel_alert_def non_terminal_def)

text \<open>
  On an active alert whose owner has a profile it returns true, marks the alert cancelled
  with the reason and the time, saves it, and clears the owner's flag.
\<close>

lemma cancel_alert_active:
  assumes "non_terminal (status a)" and "profiles d (user a) = Some p"
  shows "fst (cancel_alert now d a reason) = Inr True"
    and "fst (snd (cancel_alert now d a reason))
           = a\<lparr>status := CANCELLED, cancelled_at := Some now,
               cancellation_reason := Some reason, updated_at := now\<rparr>"
    and "get_alert (snd (snd (cancel_alert now d a reason))) (alert_id a)
           = Inr (a\<lparr>status := CANCELLED, cancelled_at := Some now,
                    cancellation_reason := Some reason, updated_at := now\<rparr>)"
    and "profiles (snd (snd (cancel_alert now d a reason))) (user a)
           = Some (p\<lparr>is_active_alert := False\<rparr>)"
proof -
  let ?a1 = "a\<lparr>status := CANCELLED, cancelled_at := Some now, cancellation_reason := Some reason\<rparr>"
  have p1: "profiles (snd (save_alert now ?a1 d)) = profiles d"
    by (simp add: save_alert_def Let_def)
  show "fst (cancel_alert now d a reason) = Inr True"
    using assms p1 by (simp add: cancel_alert_def non_terminal_def split_beta set_is_active_alert_def)
  show "fst (snd (cancel_alert now d a reason))
           = a\<lparr>status := CANCELLED, cancelled_at := Some now,
               cancellation_reason := Some reason, updated_at := now\<rparr>"
    using assms p1 by (simp add: cancel_alert_def non_terminal_def split_beta set_is_active_alert_def)
  show "get_alert (snd (snd (cancel_alert now d a reason))) (alert_id a)
           = Inr (a\<lparr>status := CANCELLED, cancelled_at := Some now,
                    cancellation_reason := Some reason, updated_at := now\<rparr>)"
    using assms p1 get_alert_saved [of now ?a1 d]
    by (simp add: cancel_alert_def non_terminal_def split_beta set_is_active_alert_def)
  show "profiles (snd (snd (cancel_alert now d a reason))) (user a)
           = Some (p\<lparr>is_active_alert := False\<rparr>)"
    using assms p1
    by (simp add: cancel_alert_def non_terminal_def split_beta set_is_active_alert_def
          create_audit_log_def)
qed

text \<open>
  \<open>AlertConsumer.cancel_alert\<close> on an alert of its user, whatever the status: it returns
  true and marks the alert cancelled.
\<close>

lemma consumer_cancel_alert_unguarded:
  assumes "get_alert_of_user d i (user_pk u) = Inr a" and "profiles d (user_pk u) = Some p"
  shows "fst (consumer_cancel_alert now d u (Some i) reason) = True"
    and "get_alert (snd (consumer_cancel_alert now d u (Some i) reason)) (alert_id a)
           = Inr (a\<lparr>status := CANCELLED, cancelled_at := Some now,
                    cancellation_reason := Some reason, updated_at := now\<rparr>)"
proof -
  let ?a1 = "a\<lparr>status := CANCELLED, cancelled_at := Some now, cancellation_reason := Some reason\<rparr>"
  have p1: "profiles (snd (save_alert now ?a1 d)) = profiles d"
    by (simp add: save_alert_def Let_def)
  show "fst (consumer_cancel_alert now d u (Some i) reason) = True"
    using assms p1
    by (simp add: consumer_cancel_alert_def lookup_alert_of_user_def split_beta
          set_is_active_alert_def)
  show "get_alert (snd (consumer_cancel_alert now d u (Some i) reason)) (alert_id a)
           = Inr (a\<lparr>status := CANCELLED, cancelled_at := Some now,
                    cancellation_reason := Some reason, updated_at := now\<rparr>)"
    using assms p1 get_alert_saved [of now ?a1 d]
    by (simp add: consumer_cancel_alert_def lookup_alert_of_user_def split_beta
          set_is_active_alert_def)
qed

text \<open>
  Claim C2, at an input where the session gateway departs from it. The alert 7 of the user is
  \<open>RESOLVED\<close>. \<open>AlertConsumer.cancel_alert\<close>, which the \<open>alert_cancel\<close> handler calls,
  returns true and overwrites the status with \<open>CANCELLED\<close>; the client is told the alert was
  cancelled. \<open>AlertService.cancel_alert\<close> returns false on the same alert and changes nothing.
\<close>

theorem consumer_cancel_terminal_alert:
  "fst (consumer_cancel_alert 9 (ex_db [ex_alert RESOLVED] []) ex_user (Some 7) ''late'') = True
   \<and> map status (alerts (snd (consumer_cancel_alert 9 (ex_db [ex_alert RESOLVED] []) ex_user
           (Some 7) ''late''))) = [CANCELLED]
   \<and> fst (handle_alert_cancel 9 (ex_db [ex_alert RESOLVED] []) ex_user (Some 7) (Some ''late''))
       = [Send_alert_cancelled ''Alert cancelled successfully'' (Some 7)]
   \<and> cancel_alert 9 (ex_db [ex_alert RESOLVED] []) (ex_alert RESOLVED) ''late''
       = (Inr False, ex_alert RESOLVED, ex_db [ex_alert RESOLVED] [])"
  by (simp add: consumer_cancel_alert_def handle_alert_cancel_def lookup_alert_of_user_def
        get_alert_of_user_def cancel_alert_def active_statuses_def
        save_alert_def set_is_active_alert_def create_audit_log_def
        ex_db_def ex_alert_def ex_user_def new_alert_def Let_def)

text \<open>\<open>AlertService.resolve_alert\<close> does the same on every alert whose owner has a profile.\<close>

lemma resolve_alert_any:
  assumes "profiles d (user a) = Some p"
  shows "fst (resolve_alert now d a notes) = Inr True"
    and "fst (snd (resolve_alert now d a notes))
           = a\<lparr>status := RESOLVED, resolved_at := Some now,
               resolution_notes := Some notes, updated_at := now\<rparr>"
    and "get_alert (snd (snd (resolve_alert now d a notes))) (alert_id a)
           = Inr (a\<lparr>status := RESOLVED, resolved_at := Some now,
                    resolution_notes := Some notes, updated_at := now\<rparr>)"
proof -
  let ?a1 = "a\<lparr>status := RESOLVED, resolved_at := Some now, resolution_notes := Some notes\<rparr>"
  have p1: "profiles (snd (save_alert now ?a1 d)) = profiles d"
    by (simp add: save_alert_def Let_def)
  show "fst (resolve_alert now d a notes) = Inr True"
    using assms p1 by (simp add: resolve_alert_def split_beta set_is_active_alert_def)
  show "fst (snd (resolve_alert now d a notes))
           = a\<lparr>status := RESOLVED, resolved_at := Some now,
               resolution_notes := Some notes, updated_at := now\<rparr>"
    using assms p1 by (simp add: resolve_alert_def split_beta set_is_active_alert_def)
  show "get_alert (snd (snd (resolve_alert now d a notes))) (alert_id a)
           = Inr (a\<lparr>status := RESOLVED, resolved_at := Some now,
                    resolution_notes := Some notes, updated_at := now\<rparr>)"
    using assms p1 get_alert_saved [of now ?a1 d]
    by (simp add: resolve_alert_def split_beta set_is_active_alert_def)
qed

lemma check_timeout_not_triggered:
  "status a \<noteq> TRIGGERED \<Longrightarrow> check_timeout s now d a = (False, a, d)"
  by (simp add: check_timeout_def split: option.splits)

text \<open>
  Claim C3, as the code has it. An alert in a terminal state is left as it is by
  \<open>cancel_alert\<close> and by \<open>check_timeout\<close>, which both return false. \<open>resolve_alert\<close> has no
  guard: on a terminal alert whose owner has a profile it returns true, sets the status to
  \<open>RESOLVED\<close>, the resolution time to now and the notes to those given, and saves the alert.
\<close>

theorem terminal_alert_guards:
  assumes "terminal (status a)" and "profiles d (user a) = Some p"
  shows "cancel_alert now d a reason = (Inr False, a, d)
       \<and> check_timeout s now d a = (False, a, d)
       \<and> fst (resolve_alert now d a notes) = Inr True
       \<and> fst (snd (resolve_alert now d a notes))
           = a\<lparr>status := RESOLVED, resolved_at := Some now,
               resolution_notes := Some notes, updated_at := now\<rparr>
       \<and> get_alert (snd (snd (resolve_alert now d a notes))) (alert_id a)
           = Inr (a\<lparr>status := RESOLVED, resolved_at := Some now,
                    resolution_notes := Some notes, updated_at := now\<rparr>)"
proof -
  have nt: "\<not> non_terminal (status a)" using assms(1) by (simp add: terminal_iff)
  have "status a \<noteq> TRIGGERED" using assms(1) by (auto simp: terminal_def)
  then show ?thesis
    using cancel_alert_terminal [OF nt] check_timeout_not_triggered resolve_alert_any [OF assms(2)]
    by simp
qed

theorem terminal_alert_guards_witness:
  "terminal (status (ex_alert CANCELLED))
   \<and> profiles (ex_db [ex_alert CANCELLED] []) (user (ex_alert CANCELLED)) = Some ex_profile
   \<and> cancel_alert 9 (ex_db [ex_alert CANCELLED] []) (ex_alert CANCELLED) ''again''
       = (Inr False, ex_alert CANCELLED, ex_db [ex_alert CANCELLED] [])
   \<and> check_timeout \<lparr>ALERT_CANCELLATION_TIMEOUT = None\<rparr> 9
         (ex_db [ex_alert CANCELLED] []) (ex_alert CANCELLED)
       = (False, ex_alert CANCELLED, ex_db [ex_alert CANCELLED] [])
   \<and> status (fst (snd (resolve_alert 9 (ex_db [ex_alert CANCELLED] []) (ex_alert CANCELLED)
         ''all clear''))) = RESOLVED"
proof -
  have h1: "terminal (status (ex_alert CANCELLED))"
    by (simp add: terminal_def ex_alert_def)
  have h2: "profiles (ex_db [ex_alert CANCELLED] []) (user (ex_alert CANCELLED)) = Some ex_profile"
    by (simp add: ex_db_def ex_alert_def new_alert_def)
  show ?thesis
    using h1 h2 terminal_alert_guards [OF h1 h2, of 9 "''again''"
        "\<lparr>ALERT_CANCELLATION_TIMEOUT = None\<rparr>" "''all clear''"]
    by simp
qed

text \<open>
  The claim as written fails for \<open>resolve_alert\<close>: a cancelled alert becomes \<open>RESOLVED\<close>, with
  a resolution time and notes.
\<close>

theorem resolve_terminal_counterexample:
  "fst (resolve_alert 9 (ex_db [ex_alert CANCELLED] []) (ex_alert CANCELLED) ''all clear'')
     = Inr True
   \<and> map status (alerts (snd (snd (resolve_alert 9 (ex_db [ex_alert CANCELLED] [])
         (ex_alert CANCELLED) ''all clear'')))) = [RESOLVED]
   \<and> map resolved_at (alerts (snd (snd (resolve_alert 9 (ex_db [ex_alert CANCELLED] [])
         (ex_alert CANCELLED) ''all clear'')))) = [Some 9]
   \<and> map resolution_notes (alerts (snd (snd (resolve_alert 9 (ex_db [ex_alert CANCELLED] [])
         (ex_alert CANCELLED) ''all clear'')))) = [Some ''all clear'']"
  by (simp add: resolve_alert_def save_alert_def set_is_active_alert_def create_audit_log_def
        ex_db_def ex_alert_def new_alert_def Let_def)

section \<open>One active alert per user\<close>

lemma sort_key_Nil_iff: "sort_key f xs = [] \<longleftrightarrow> xs = []"
proof
  assume "sort_key f xs = []"
  then have "length (sort_key f xs) = 0" by simp
  then show "xs = []" by (simp del: sort_key_simps)
qed simp

text \<open>The view finds no active alert exactly when the user has none.\<close>

lemma first_active_alert_None:
  "first_active_alert d uid = None \<longleftrightarrow> active_alerts_of d uid = []"
proof -
  let ?xs = "filter (\<lambda>a. user a = uid \<and> status a \<in> set active_statuses) (alerts d)"
  have "first_active_alert d uid = None \<longleftrightarrow> sort_key (\<lambda>a. - triggered_at a) ?xs = []"
    unfolding first_active_alert_def by (cases "sort_key (\<lambda>a. - triggered_at a) ?xs") simp_all
  also have "\<dots> \<longleftrightarrow> ?xs = []" by (rule sort_key_Nil_iff)
  finally show ?thesis
    unfolding active_alerts_of_def non_terminal_def .
qed


lemma alerts_create_alert:
  "alerts (snd (create_alert now new_id d uid lat lon m ua ip)) =
     (if new_id \<in> set (map alert_id (alerts d)) then alerts d
      else alerts d @ [new_alert now new_id uid m lat lon ua ip (Some now)])"
proof (cases "profiles d uid")
  case None
  then show ?thesis
    by (simp add: create_alert_def insert_alert_def set_is_active_alert_def Let_def)
next
  case (Some p)
  then show ?thesis
    by (simp add: create_alert_def insert_alert_def set_is_active_alert_def Let_def
          create_audit_log_def)
qed

lemma create_alert_active_alerts:
  "length (active_alerts_of (snd (create_alert now new_id d uid lat lon m ua ip)) v)
     \<le> length (active_alerts_of d v) + (if v = uid then 1 else 0)"
  unfolding active_alerts_of_def alerts_create_alert
  by (simp add: new_alert_def)

text \<open>
  \<open>trigger_alert_view\<close> keeps the bound: it never takes a user from at most one active
  alert to two.
\<close>

lemma trigger_alert_view_one_active:
  assumes "length (active_alerts_of d v) \<le> 1"
  shows "length (active_alerts_of (snd (trigger_alert_view now new_id d u body m)) v) \<le> 1"
proof (cases body)
  case None
  then show ?thesis using assms by (simp add: trigger_alert_view_def)
next
  case (Some b)
  show ?thesis
  proof (cases "first_active_alert d (user_pk u)")
    case (Some x)
    then show ?thesis using assms \<open>body = Some b\<close> by (simp add: trigger_alert_view_def)
  next
    case None
    let ?m = "case body_trigger_method b of None \<Rightarrow> ''panic_button'' | Some x \<Rightarrow> x"
    let ?c = "create_alert now new_id d (user_pk u) (body_latitude b) (body_longitude b)
                    ?m (HTTP_USER_AGENT m) (get_client_ip m)"
    from None have e: "active_alerts_of d (user_pk u) = []" by (simp add: first_active_alert_None)
    have "snd (trigger_alert_view now new_id d u body m) = snd ?c"
      using None \<open>body = Some b\<close>
      by (cases ?c; cases "fst ?c") (simp_all add: trigger_alert_view_def)
    moreover have "length (active_alerts_of (snd ?c) v)
                    \<le> length (active_alerts_of d v) + (if v = user_pk u then 1 else 0)"
      by (rule create_alert_active_alerts)
    ultimately show ?thesis
      using assms e by (cases "v = user_pk u") simp_all
  qed
qed

lemma trigger_alert_view_conflict:
  assumes "active_alerts_of d (user_pk u) \<noteq> []"
  shows "\<exists>i. trigger_alert_view now new_id d u (Some b) m = (Already_active i, d)"
proof -
  from assms obtain x where "first_active_alert d (user_pk u) = Some x"
    using first_active_alert_None [of d "user_pk u"]
    by (cases "first_active_alert d (user_pk u)") auto
  then show ?thesis by (simp add: trigger_alert_view_def)
qed

text \<open>
  \<open>AlertConsumer.create_alert\<close> looks at no existing alert: with a fresh key and a profile
  it always inserts.
\<close>

lemma consumer_create_alert_unguarded:
  assumes "new_id \<notin> set (map alert_id (alerts d))" and "profiles d (user_pk u) = Some p"
  shows "consumer_create_alert now new_id d u lat lon m ua ip =
           (Some \<lparr>data_alert_id = new_id, data_status = TRIGGERED, data_triggered_at = now\<rparr>,
            create_audit_log now (user_pk u) new_id ALERT_TRIGGERED ip ua
              (d\<lparr>alerts := alerts d @ [new_alert now new_id (user_pk u) m lat lon ua ip None],
                 profiles := (profiles d)(user_pk u \<mapsto> p\<lparr>is_active_alert := True\<rparr>)\<rparr>))"
proof -
  let ?a = "new_alert now new_id (user_pk u) m lat lon ua ip None"
  have i: "insert_alert ?a d = Inr (d\<lparr>alerts := alerts d @ [?a]\<rparr>)"
    using assms(1) by (simp add: insert_alert_def)
  have s: "set_is_active_alert (user_pk u) True (d\<lparr>alerts := alerts d @ [?a]\<rparr>)
             = Inr (d\<lparr>alerts := alerts d @ [?a],
                      profiles := (profiles d)(user_pk u \<mapsto> p\<lparr>is_active_alert := True\<rparr>)\<rparr>)"
    using assms(2) by (simp add: set_is_active_alert_def)
  have f: "alert_id ?a = new_id" "status ?a = TRIGGERED" "triggered_at ?a = now"
    by (simp_all add: new_alert_def)
  show ?thesis
    by (simp add: consumer_create_alert_def Let_def i s f)
qed

lemma handle_alert_trigger_unguarded:
  assumes "new_id \<notin> set (map alert_id (alerts d))" and "profiles d (user_pk u) = Some p"
  shows "handle_alert_trigger now new_id d u lat lon method ua ip =
           ([Send_alert_triggered
               \<lparr>data_alert_id = new_id, data_status = TRIGGERED, data_triggered_at = now\<rparr>],
            create_audit_log now (user_pk u) new_id ALERT_TRIGGERED ip ua
              (d\<lparr>alerts := alerts d @
                    [new_alert now new_id (user_pk u)
                       (case method of None \<Rightarrow> ''panic_button'' | Some m \<Rightarrow> m) lat lon ua ip None],
                 profiles := (profiles d)(user_pk u \<mapsto> p\<lparr>is_active_alert := True\<rparr>)\<rparr>))"
  unfolding handle_alert_trigger_def Let_def consumer_create_alert_unguarded [OF assms]
  by simp

lemma handle_alert_trigger_adds_active:
  assumes "new_id \<notin> set (map alert_id (alerts d))" and "profiles d (user_pk u) = Some p"
  shows "active_alerts_of (snd (handle_alert_trigger now new_id d u lat lon method ua ip)) (user_pk u)
           = active_alerts_of d (user_pk u) @
               [new_alert now new_id (user_pk u)
                  (case method of None \<Rightarrow> ''panic_button'' | Some m \<Rightarrow> m) lat lon ua ip None]"
  unfolding handle_alert_trigger_unguarded [OF assms]
  by (simp add: active_alerts_of_def create_audit_log_def new_alert_def non_terminal_def
        active_statuses_def)


text \<open>
  Claim C1, at an input where the session gateway departs from it. The user has no alert and
  sends two \<open>alert_trigger\<close> messages. The second one is answered with
  \<open>alert_triggered\<close> like the first, and the user then has two alerts in state
  \<open>TRIGGERED\<close>. \<open>trigger_alert_view\<close>, in the state after the first message, answers that an
  alert is already active and writes nothing.
\<close>

theorem second_alert_trigger_creates_second_alert:
  "map (\<lambda>a. (alert_id a, user a, status a))
     (active_alerts_of
        (snd (receive ex_haversine 2 8 ex_user (Alert_trigger None None None None None)
          (snd (receive ex_haversine 1 7 ex_user (Alert_trigger None None None None None)
             (ex_db [] []))))) 1)
     = [(7, 1, TRIGGERED), (8, 1, TRIGGERED)]
   \<and> fst (receive ex_haversine 2 8 ex_user (Alert_trigger None None None None None)
          (snd (receive ex_haversine 1 7 ex_user (Alert_trigger None None None None None)
             (ex_db [] []))))
     = [Send_alert_triggered \<lparr>data_alert_id = 8, data_status = TRIGGERED, data_triggered_at = 2\<rparr>]
   \<and> trigger_alert_view 2 8
          (snd (receive ex_haversine 1 7 ex_user (Alert_trigger None None None None None)
             (ex_db [] [])))
          ex_user
          (Some \<lparr>body_latitude = None, body_longitude = None, body_trigger_method = None\<rparr>)
          \<lparr>HTTP_USER_AGENT = None, HTTP_X_FORWARDED_FOR = None, REMOTE_ADDR = None\<rparr>
     = (Already_active 7,
        snd (receive ex_haversine 1 7 ex_user (Alert_trigger None None None None None)
             (ex_db [] [])))"
proof -
  let ?d0 = "ex_db [] []"
  let ?t1 = "handle_alert_trigger 1 7 ?d0 ex_user None None None None None"
  let ?d1 = "snd ?t1"
  let ?t2 = "handle_alert_trigger 2 8 ?d1 ex_user None None None None None"
  let ?a7 = "new_alert 1 7 1 ''panic_button'' None None None None None"
  let ?a8 = "new_alert 2 8 1 ''panic_button'' None None None None None"
  have u: "user_pk ex_user = 1" by (simp add: ex_user_def)
  have f0: "7 \<notin> set (map alert_id (alerts ?d0))" by (simp add: ex_db_def)
  have p0: "profiles ?d0 (user_pk ex_user) = Some ex_profile" by (simp add: ex_db_def u)
  have a0: "active_alerts_of ?d0 1 = []" by (simp add: active_alerts_of_def ex_db_def)
  have d1: "alerts ?d1 = [?a7]"
    unfolding handle_alert_trigger_unguarded [OF f0 p0]
    by (simp add: create_audit_log_def ex_db_def u)
  have f1: "8 \<notin> set (map alert_id (alerts ?d1))" unfolding d1 by simp
  have p1: "profiles ?d1 (user_pk ex_user) = Some (ex_profile\<lparr>is_active_alert := True\<rparr>)"
    unfolding handle_alert_trigger_unguarded [OF f0 p0]
    by (simp add: create_audit_log_def)
  have a1: "active_alerts_of ?d1 1 = [?a7]"
    using handle_alert_trigger_adds_active [OF f0 p0, of 1 None None None None None] a0
    by (simp add: u)
  have a2: "active_alerts_of (snd ?t2) 1 = [?a7, ?a8]"
    using handle_alert_trigger_adds_active [OF f1 p1, of 2 None None None None None] a1
    by (simp add: u)
  have m2: "fst ?t2 = [Send_alert_triggered
              \<lparr>data_alert_id = 8, data_status = TRIGGERED, data_triggered_at = 2\<rparr>]"
    unfolding handle_alert_trigger_unguarded [OF f1 p1] by simp
  have "first_active_alert ?d1 (user_pk ex_user) = Some ?a7"
    unfolding first_active_alert_def d1 u
    by (simp add: new_alert_def active_statuses_def)
  then have v: "trigger_alert_view 2 8 ?d1 ex_user
          (Some \<lparr>body_latitude = None, body_longitude = None, body_trigger_method = None\<rparr>)
          \<lparr>HTTP_USER_AGENT = None, HTTP_X_FORWARDED_FOR = None, REMOTE_ADDR = None\<rparr>
     = (Already_active 7, ?d1)"
    by (simp add: trigger_alert_view_def)
  show ?thesis
    using a2 m2 v by (simp add: new_alert_def)
qed

section \<open>Who may monitor an alert\<close>

text \<open>
  Claim C4, as the code has it. A monitor is authorised exactly when the alert exists and the
  connecting user is its owner or has the email of one of the owner's emergency contacts,
  active or not. \<open>connect\<close> joins the monitor group of the alert for an authenticated,
  authorised user and closes the connection otherwise.
\<close>

theorem monitor_permission_any_contact:
  "(verify_monitor_permission d u aid \<longleftrightarrow>
      (\<exists>a. get_alert d aid = Inr a \<and>
           (user a = user_pk u \<or>
            (\<exists>c \<in> set (emergency_contacts d).
                contact_user c = user a \<and> contact_email c = email u))))
   \<and> monitor_connect d u aid =
       (if is_authenticated u \<and> verify_monitor_permission d u aid then Accepted aid else Closed)"
proof -
  have "verify_monitor_permission d u aid \<longleftrightarrow>
      (\<exists>a. get_alert d aid = Inr a \<and>
           (user a = user_pk u \<or>
            (\<exists>c \<in> set (emergency_contacts d).
                contact_user c = user a \<and> contact_email c = email u)))"
    by (cases "get_alert d aid") (auto simp: verify_monitor_permission_def filter_empty_conv)
  moreover have "monitor_connect d u aid =
       (if is_authenticated u \<and> verify_monitor_permission d u aid then Accepted aid else Closed)"
    by (simp add: monitor_connect_def)
  ultimately show ?thesis by blast
qed

theorem monitor_permission_any_contact_witness:
  "monitor_connect (ex_db [ex_alert TRIGGERED] [ex_contact 1 ''meera'' 1 True]) ex_guest 7
     = Accepted 7
   \<and> monitor_connect (ex_db [ex_alert TRIGGERED] [ex_contact 1 ''meera'' 1 True]) ex_user 7
     = Accepted 7
   \<and> monitor_connect (ex_db [ex_alert TRIGGERED] [ex_contact 1 ''kavya'' 1 True]) ex_guest 7
     = Closed
   \<and> monitor_connect (ex_db [ex_alert TRIGGERED] [ex_contact 1 ''meera'' 1 True]) ex_guest 8
     = Closed"
  using monitor_permission_any_contact
          [of "ex_db [ex_alert TRIGGERED] [ex_contact 1 ''meera'' 1 True]" ex_guest 7]
        monitor_permission_any_contact
          [of "ex_db [ex_alert TRIGGERED] [ex_contact 1 ''meera'' 1 True]" ex_user 7]
        monitor_permission_any_contact
          [of "ex_db [ex_alert TRIGGERED] [ex_contact 1 ''kavya'' 1 True]" ex_guest 7]
        monitor_permission_any_contact
          [of "ex_db [ex_alert TRIGGERED] [ex_contact 1 ''meera'' 1 True]" ex_guest 8]
  by (simp add: get_alert_def ex_db_def ex_alert_def ex_contact_def ex_guest_def ex_user_def
        new_alert_def)

text \<open>
  The claim as written fails: a user who is not the owner, and whose email matches only an
  inactive contact of the owner, is accepted.
\<close>

theorem inactive_contact_monitor_counterexample:
  "monitor_connect (ex_db [ex_alert TRIGGERED] [ex_contact 1 ''meera'' 1 False]) ex_guest 7
     = Accepted 7
   \<and> user_pk ex_guest \<noteq> user (ex_alert TRIGGERED)
   \<and> filter (\<lambda>c. contact_user c = user (ex_alert TRIGGERED) \<and> contact_email c = email ex_guest
                \<and> contact_is_active c)
        (emergency_contacts (ex_db [ex_alert TRIGGERED] [ex_contact 1 ''meera'' 1 False])) = []"
  by (simp add: monitor_connect_def verify_monitor_permission_def get_alert_def
        ex_db_def ex_alert_def ex_contact_def ex_guest_def new_alert_def)

section \<open>Dispatch to the active contacts\<close>

text \<open>The loop writes an SMS row and an EMAIL row for each contact, in the order it is given.\<close>

lemma dispatch_loop_result:
  "dispatch_loop t now a cs logs n d =
     (logs @ concat (map (\<lambda>c. [(c, sms_log_of t now a c), (c, email_log_of t now a c)]) cs),
      n + int (length cs),
      d\<lparr>dispatch_logs := dispatch_logs d @
           concat (map (\<lambda>c. [sms_log_of t now a c, email_log_of t now a c]) cs)\<rparr>)"
proof (induction cs arbitrary: logs n d)
  case Nil
  show ?case by simp
next
  case (Cons c cs)
  show ?case
    by (simp add: Cons.IH send_sms_def send_email_def create_dispatch_log_def Let_def
          sms_log_of_def email_log_of_def)
qed


lemma active_contacts_sorted:
  "mset (active_contacts d uid)
     = mset (filter (\<lambda>c. contact_user c = uid \<and> contact_is_active c) (emergency_contacts d))"
  "sorted (map priority (active_contacts d uid))"
  "filter (\<lambda>c. priority c = k) (active_contacts d uid)
     = filter (\<lambda>c. priority c = k)
         (filter (\<lambda>c. contact_user c = uid \<and> contact_is_active c) (emergency_contacts d))"
  unfolding active_contacts_def
  by (simp_all only: mset_sort sorted_sort_key sort_key_stable)

lemma dispatch_logs_save_alert [simp]:
  "dispatch_logs (snd (save_alert now a d)) = dispatch_logs d"
  by (simp add: save_alert_def Let_def)

lemma dispatch_logs_audit [simp]:
  "dispatch_logs (create_audit_log now uid aid act ip ua d) = dispatch_logs d"
  by (simp add: create_audit_log_def)

lemma active_contacts_frame [simp]:
  "active_contacts (d\<lparr>dispatch_logs := x\<rparr>) uid = active_contacts d uid"
  by (simp add: active_contacts_def)

lemma dispatch_alert_unfold:
  assumes "active_contacts d (user a) \<noteq> []"
  shows "dispatch_alert t now d a =
    (\<lparr>success = True, message = None,
      result_contacts_notified = int (length (active_contacts d (user a))),
      result_dispatch_logs =
        concat (map (\<lambda>c. [(contact_name c, SMS, SIMULATED), (contact_name c, EMAIL, SIMULATED)])
                  (active_contacts d (user a)))\<rparr>,
     a\<lparr>status := DISPATCHED, dispatched_at := Some now,
        contacts_notified := int (length (active_contacts d (user a))), updated_at := now\<rparr>,
     create_audit_log now (user a) (alert_id a) ALERT_DISPATCHED None None
       (snd (save_alert now
          (a\<lparr>status := DISPATCHED, dispatched_at := Some now,
              contacts_notified := int (length (active_contacts d (user a)))\<rparr>)
          (d\<lparr>dispatch_logs := dispatch_logs d @
               concat (map (\<lambda>c. [sms_log_of t now a c, email_log_of t now a c])
                         (active_contacts d (user a)))\<rparr>))))"
proof -
  have m: "map (\<lambda>(c, l). (contact_name c, log_channel l, log_status l))
             (concat (map (\<lambda>c. [(c, sms_log_of t now a c), (c, email_log_of t now a c)]) cs))
           = concat (map (\<lambda>c. [(contact_name c, SMS, SIMULATED), (contact_name c, EMAIL, SIMULATED)]) cs)"
    for cs
    by (induction cs) (simp_all add: sms_log_of_def email_log_of_def)
  show ?thesis
    using assms
    by (simp add: dispatch_alert_def Let_def dispatch_loop_result split_beta m)
qed

text \<open>
  Claim C5, as the code has it. When the owner has an active contact, the contacts processed
  are the owner's active contacts in ascending priority; contacts of one priority keep the
  order in which the table holds them (the name is no sort key). Dispatch writes for each of
  them, in that order, one SMS row and then one EMAIL row, sets \<open>contacts_notified\<close> to
  their number, \<open>dispatched_at\<close> to now and the status to \<open>DISPATCHED\<close>, saves the alert
  and reports success.
\<close>

theorem dispatch_alert_by_priority:
  assumes "\<exists>c \<in> set (emergency_contacts d). contact_user c = user a \<and> contact_is_active c"
  shows "mset (active_contacts d (user a))
           = mset (filter (\<lambda>c. contact_user c = user a \<and> contact_is_active c) (emergency_contacts d))
       \<and> sorted (map priority (active_contacts d (user a)))
       \<and> (\<forall>k. filter (\<lambda>c. priority c = k) (active_contacts d (user a))
              = filter (\<lambda>c. priority c = k)
                  (filter (\<lambda>c. contact_user c = user a \<and> contact_is_active c)
                     (emergency_contacts d)))
       \<and> dispatch_logs (snd (snd (dispatch_alert t now d a)))
           = dispatch_logs d @
               concat (map (\<lambda>c. [sms_log_of t now a c, email_log_of t now a c])
                         (active_contacts d (user a)))
       \<and> fst (snd (dispatch_alert t now d a))
           = a\<lparr>status := DISPATCHED, dispatched_at := Some now,
               contacts_notified := int (length (active_contacts d (user a))), updated_at := now\<rparr>
       \<and> get_alert (snd (snd (dispatch_alert t now d a))) (alert_id a)
           = Inr (a\<lparr>status := DISPATCHED, dispatched_at := Some now,
                    contacts_notified := int (length (active_contacts d (user a))),
                    updated_at := now\<rparr>)
       \<and> success (fst (dispatch_alert t now d a))
       \<and> result_contacts_notified (fst (dispatch_alert t now d a))
           = int (length (active_contacts d (user a)))"
proof -
  let ?cs = "active_contacts d (user a)"
  let ?a1 = "a\<lparr>status := DISPATCHED, dispatched_at := Some now, contacts_notified := int (length ?cs)\<rparr>"
  from assms have "filter (\<lambda>c. contact_user c = user a \<and> contact_is_active c) (emergency_contacts d) \<noteq> []"
    by (auto simp: filter_empty_conv)
  then have ne: "?cs \<noteq> []"
    using active_contacts_sorted(1) [where d = d and uid = "user a"] by (metis mset_zero_iff)
  have g: "get_alert (snd (snd (dispatch_alert t now d a))) (alert_id a) = Inr (?a1\<lparr>updated_at := now\<rparr>)"
    unfolding dispatch_alert_unfold [OF ne]
    using get_alert_saved [of now ?a1] by simp
  show ?thesis
    using active_contacts_sorted [where d = d and uid = "user a"] g
    unfolding dispatch_alert_unfold [OF ne]
    by simp
qed

theorem dispatch_alert_by_priority_witness:
  "map contact_pk
     (active_contacts (ex_db [ex_alert TRIGGERED]
        [ex_contact 1 ''Meera'' 2 True, ex_contact 2 ''Kavya'' 1 True, ex_contact 3 ''Divya'' 3 True])
        1) = [2, 1, 3]
   \<and> map (\<lambda>l. (log_contact l, log_channel l))
        (dispatch_logs (snd (snd (dispatch_alert ex_templates 5
           (ex_db [ex_alert TRIGGERED]
              [ex_contact 1 ''Meera'' 2 True, ex_contact 2 ''Kavya'' 1 True,
               ex_contact 3 ''Divya'' 3 True])
           (ex_alert TRIGGERED)))))
       = [(2, SMS), (2, EMAIL), (1, SMS), (1, EMAIL), (3, SMS), (3, EMAIL)]
   \<and> contacts_notified (fst (snd (dispatch_alert ex_templates 5
           (ex_db [ex_alert TRIGGERED]
              [ex_contact 1 ''Meera'' 2 True, ex_contact 2 ''Kavya'' 1 True,
               ex_contact 3 ''Divya'' 3 True])
           (ex_alert TRIGGERED)))) = 3
   \<and> status (fst (snd (dispatch_alert ex_templates 5
           (ex_db [ex_alert TRIGGERED]
              [ex_contact 1 ''Meera'' 2 True, ex_contact 2 ''Kavya'' 1 True,
               ex_contact 3 ''Divya'' 3 True])
           (ex_alert TRIGGERED)))) = DISPATCHED"
proof -
  let ?d = "ex_db [ex_alert TRIGGERED]
        [ex_contact 1 ''Meera'' 2 True, ex_contact 2 ''Kavya'' 1 True, ex_contact 3 ''Divya'' 3 True]"
  have u: "user (ex_alert TRIGGERED) = 1" by (simp add: ex_alert_def new_alert_def)
  have h: "\<exists>c \<in> set (emergency_contacts ?d).
             contact_user c = user (ex_alert TRIGGERED) \<and> contact_is_active c"
    by (simp add: ex_db_def ex_contact_def u)
  have cs: "active_contacts ?d 1
              = [ex_contact 2 ''Kavya'' 1 True, ex_contact 1 ''Meera'' 2 True,
                 ex_contact 3 ''Divya'' 3 True]"
    by (simp add: active_contacts_def ex_db_def ex_contact_def)
  have "dispatch_logs ?d = []" by (simp add: ex_db_def)
  then show ?thesis
    using dispatch_alert_by_priority [OF h, of ex_templates 5]
    unfolding u cs
    by (simp add: sms_log_of_def email_log_of_def ex_contact_def)
qed

text \<open>
  The claim as written fails on ties: of two active contacts of priority 1, stored as
  \<open>Zed\<close> and then \<open>Amy\<close>, \<open>Zed\<close> is notified first.
\<close>

theorem dispatch_tie_order_counterexample:
  "map contact_name
     (active_contacts (ex_db [ex_alert TRIGGERED]
        [ex_contact 1 ''Zed'' 1 True, ex_contact 2 ''Amy'' 1 True]) 1) = [''Zed'', ''Amy'']
   \<and> \<not> sorted (map (\<lambda>c. (priority c, contact_name c))
          (active_contacts (ex_db [ex_alert TRIGGERED]
             [ex_contact 1 ''Zed'' 1 True, ex_contact 2 ''Amy'' 1 True]) 1))
   \<and> map (\<lambda>l. (log_contact l, log_channel l))
        (dispatch_logs (snd (snd (dispatch_alert ex_templates 5
           (ex_db [ex_alert TRIGGERED] [ex_contact 1 ''Zed'' 1 True, ex_contact 2 ''Amy'' 1 True])
           (ex_alert TRIGGERED)))))
       = [(1, SMS), (1, EMAIL), (2, SMS), (2, EMAIL)]"
proof -
  let ?d = "ex_db [ex_alert TRIGGERED] [ex_contact 1 ''Zed'' 1 True, ex_contact 2 ''Amy'' 1 True]"
  have u: "user (ex_alert TRIGGERED) = 1" by (simp add: ex_alert_def new_alert_def)
  have cs: "active_contacts ?d 1 = [ex_contact 1 ''Zed'' 1 True, ex_contact 2 ''Amy'' 1 True]"
    by (simp add: active_contacts_def ex_db_def ex_contact_def)
  have ne: "active_contacts ?d (user (ex_alert TRIGGERED)) \<noteq> []" unfolding u cs by simp
  have "\<not> ((1::int, ''Zed'') \<le> (1, ''Amy''))" by (simp add: less_eq_char_def)
  then have ns: "\<not> sorted (map (\<lambda>c. (priority c, contact_name c)) (active_contacts ?d 1))"
    unfolding cs by (simp add: ex_contact_def)
  have l: "map (\<lambda>l. (log_contact l, log_channel l))
        (dispatch_logs (snd (snd (dispatch_alert ex_templates 5 ?d (ex_alert TRIGGERED)))))
       = [(1, SMS), (1, EMAIL), (2, SMS), (2, EMAIL)]"
    unfolding dispatch_alert_unfold [OF ne] u cs
    by (simp add: create_audit_log_def sms_log_of_def email_log_of_def ex_contact_def ex_db_def)
  show ?thesis using cs ns l by (simp add: ex_contact_def)
qed

section \<open>The safe word\<close>

lemma of_char_lower_char:
  "(of_char (lower_char c) :: nat) = (if is_upper c then of_char c + 32 else of_char c)"
proof (cases "is_upper c")
  case True
  then have "(of_char c :: nat) + 32 < 256" by (auto simp: is_upper_def Let_def)
  then have "((of_char c :: nat) + 32) mod 256 = of_char c + 32" by simp
  with True show ?thesis by (simp add: lower_char_def)
next
  case False
  then show ?thesis by (simp add: lower_char_def)
qed

text \<open>Two strings have the same \<open>lower()\<close> exactly when they are equal up to case.\<close>

lemma lower_char_eq_iff: "lower_char c = lower_char d \<longleftrightarrow> differ_in_case_only c d"
proof -
  have "lower_char c = lower_char d
          \<longleftrightarrow> (of_char (lower_char c) :: nat) = of_char (lower_char d)"
    by simp
  also have "\<dots> \<longleftrightarrow> differ_in_case_only c d"
    unfolding of_char_lower_char differ_in_case_only_def
    using of_char_eq_iff [of c d, where ?'a = nat]
    by (auto simp: is_upper_def Let_def simp del: of_char_eq_iff)
  finally show ?thesis .
qed

lemma lower_eq_iff: "lower s = lower t \<longleftrightarrow> equal_ignoring_case s t"
  unfolding lower_def equal_ignoring_case_def
proof (induction s arbitrary: t)
  case Nil
  show ?case by auto
next
  case (Cons c s)
  show ?case by (cases t) (simp_all add: Cons.IH lower_char_eq_iff)
qed

lemma safe_word_matches_iff:
  "safe_word_matches stored (Some attempt)
     = Inr (\<exists>w. stored = Some w \<and> w \<noteq> [] \<and> equal_ignoring_case w attempt)"
  by (cases stored) (simp_all add: safe_word_matches_def lower_eq_iff)

lemma safe_word_step_result:
  "safe_word_step now d a p (Some attempt) =
     (Inr (\<exists>w. safe_word p = Some w \<and> w \<noteq> [] \<and> equal_ignoring_case w attempt),
      save_alert now
        (a\<lparr>safe_word_attempted := True,
           safe_word_success := safe_word_success a \<or>
             (\<exists>w. safe_word p = Some w \<and> w \<noteq> [] \<and> equal_ignoring_case w attempt)\<rparr>) d)"
proof -
  define m where "m = (\<exists>w. safe_word p = Some w \<and> w \<noteq> [] \<and> equal_ignoring_case w attempt)"
  have sm: "safe_word_matches (safe_word p) (Some attempt) = Inr m"
    by (simp add: safe_word_matches_iff m_def)
  have "safe_word_step now d a p (Some attempt) =
     (Inr m, save_alert now
        (a\<lparr>safe_word_attempted := True, safe_word_success := safe_word_success a \<or> m\<rparr>) d)"
  proof (cases m)
    case True
    then show ?thesis by (simp add: safe_word_step_def sm Let_def split_beta)
  next
    case False
    have "a\<lparr>safe_word_attempted := True, safe_word_success := safe_word_success a\<rparr>
            = a\<lparr>safe_word_attempted := True\<rparr>"
      by (cases a) simp
    with False show ?thesis by (simp add: safe_word_step_def sm Let_def split_beta)
  qed
  then show ?thesis by (simp add: m_def)
qed

lemma get_alert_of_user_owner:
  "get_alert_of_user d i uid = Inr a \<Longrightarrow> user a = uid \<and> alert_id a = i"
  by (auto simp: get_alert_of_user_def find_Some_iff split: option.splits)

text \<open>
  Claim C8. For an alert whose owner has a profile and an attempt that is a string,
  \<open>verify_safe_word\<close> returns true exactly when the owner has a safe word configured (the
  column is neither null nor empty) and the attempt equals it up to case. Every such call
  sets \<open>safe_word_attempted\<close>, sets \<open>safe_word_success\<close> on a match and leaves it as it was
  otherwise, changes no other column but \<open>updated_at\<close> (the status among them), and saves the
  alert. \<open>AlertConsumer.verify_safe_word\<close>, for an alert of its user, returns the same
  answer and leaves the same database.
\<close>

theorem verify_safe_word_case_insensitive:
  assumes "profiles d (user a) = Some p"
  shows "fst (verify_safe_word now d a (Some attempt))
           = Inr (\<exists>w. safe_word p = Some w \<and> w \<noteq> [] \<and> equal_ignoring_case w attempt)
       \<and> fst (snd (verify_safe_word now d a (Some attempt)))
           = a\<lparr>safe_word_attempted := True,
               safe_word_success := safe_word_success a \<or>
                 (\<exists>w. safe_word p = Some w \<and> w \<noteq> [] \<and> equal_ignoring_case w attempt),
               updated_at := now\<rparr>
       \<and> status (fst (snd (verify_safe_word now d a (Some attempt)))) = status a
       \<and> get_alert (snd (snd (verify_safe_word now d a (Some attempt)))) (alert_id a)
           = Inr (fst (snd (verify_safe_word now d a (Some attempt))))
       \<and> (get_alert_of_user d (alert_id a) (user_pk u) = Inr a \<longrightarrow>
            consumer_verify_safe_word now d u (Some (alert_id a)) (Some attempt)
              = (\<exists>w. safe_word p = Some w \<and> w \<noteq> [] \<and> equal_ignoring_case w attempt,
                 snd (snd (verify_safe_word now d a (Some attempt)))))"
proof -
  let ?m = "\<exists>w. safe_word p = Some w \<and> w \<noteq> [] \<and> equal_ignoring_case w attempt"
  let ?a1 = "a\<lparr>safe_word_attempted := True, safe_word_success := safe_word_success a \<or> ?m\<rparr>"
  have v: "verify_safe_word now d a (Some attempt) = (Inr ?m, save_alert now ?a1 d)"
    using assms by (simp add: verify_safe_word_def safe_word_step_result)
  have g: "get_alert (snd (save_alert now ?a1 d)) (alert_id a) = Inr (?a1\<lparr>updated_at := now\<rparr>)"
    using get_alert_saved [of now ?a1 d] by simp
  have c: "consumer_verify_safe_word now d u (Some (alert_id a)) (Some attempt)
              = (?m, snd (save_alert now ?a1 d))"
    if "get_alert_of_user d (alert_id a) (user_pk u) = Inr a"
  proof -
    from that have "user a = user_pk u" by (auto dest: get_alert_of_user_owner)
    with assms that show ?thesis
      by (simp add: consumer_verify_safe_word_def lookup_alert_of_user_def safe_word_step_result
            split_beta)
  qed
  show ?thesis unfolding v using g c by simp
qed

theorem verify_safe_word_case_insensitive_witness:
  "fst (verify_safe_word 9 (ex_db [ex_alert TRIGGERED] []) (ex_alert TRIGGERED) (Some ''blue42''))
     = Inr True
   \<and> safe_word_success (fst (snd (verify_safe_word 9 (ex_db [ex_alert TRIGGERED] [])
        (ex_alert TRIGGERED) (Some ''blue42''))))
   \<and> fst (verify_safe_word 9 (ex_db [ex_alert TRIGGERED] []) (ex_alert TRIGGERED) (Some ''red''))
     = Inr False
   \<and> safe_word_attempted (fst (snd (verify_safe_word 9 (ex_db [ex_alert TRIGGERED] [])
        (ex_alert TRIGGERED) (Some ''red''))))
   \<and> \<not> safe_word_success (fst (snd (verify_safe_word 9 (ex_db [ex_alert TRIGGERED] [])
        (ex_alert TRIGGERED) (Some ''red''))))
   \<and> fst (consumer_verify_safe_word 9 (ex_db [ex_alert TRIGGERED] []) ex_user (Some 7)
        (Some ''BLUE42'')) = True"
proof -
  let ?d = "ex_db [ex_alert TRIGGERED] []"
  have p: "profiles ?d (user (ex_alert TRIGGERED)) = Some ex_profile"
    by (simp add: ex_db_def ex_alert_def new_alert_def)
  have g: "get_alert_of_user ?d (alert_id (ex_alert TRIGGERED)) (user_pk ex_user)
             = Inr (ex_alert TRIGGERED)"
    by (simp add: get_alert_of_user_def ex_db_def ex_alert_def ex_user_def new_alert_def)
  have i: "alert_id (ex_alert TRIGGERED) = 7" by (simp add: ex_alert_def)
  have e: "equal_ignoring_case ''Blue42'' ''blue42''" "equal_ignoring_case ''Blue42'' ''BLUE42''"
    "\<not> equal_ignoring_case ''Blue42'' ''red''"
    by (simp_all add: equal_ignoring_case_def differ_in_case_only_def is_upper_def)
  have s: "safe_word ex_profile = Some ''Blue42''" "\<not> safe_word_success (ex_alert TRIGGERED)"
    by (simp_all add: ex_profile_def ex_alert_def new_alert_def)
  show ?thesis
    using verify_safe_word_case_insensitive [OF p, of 9 "''blue42''" ex_user]
      verify_safe_word_case_insensitive [OF p, of 9 "''red''" ex_user]
      verify_safe_word_case_insensitive [OF p, of 9 "''BLUE42''" ex_user]
      g
    unfolding i by (simp add: e s)
qed

section \<open>Safe zones\<close>

text \<open>
  In the lemmas of this section \<open>f\<close> gives the distances of the zones for which the
  computation returns. The scan stops at the first zone that holds the point.
\<close>

lemma zone_loop_found:
  assumes "\<forall>x \<in> set zs. distance_to x = Inr (f x)"
    and "find (\<lambda>z. f z \<le> real_of_int (radius_meters z)) zs = Some z"
  shows "zone_loop distance_to zs nearest min_d = Inr (True, Some z, Finite (f z))"
  using assms
  by (induction zs arbitrary: nearest min_d) (auto simp: Let_def split: if_splits)

text \<open>
  When no zone holds the point, the scan ends with a zone of least distance among those it
  has seen.
\<close>

lemma zone_loop_outside:
  assumes "\<forall>z \<in> set zs. distance_to z = Inr (f z) \<and> \<not> f z \<le> real_of_int (radius_meters z)"
  shows "\<exists>m \<in> set (n # zs).
           zone_loop distance_to zs (Some n) (Finite (f n)) = Inr (False, Some m, Finite (f m))
           \<and> (\<forall>z \<in> set (n # zs). f m \<le> f z)"
  using assms
proof (induction zs arbitrary: n)
  case Nil
  show ?case by simp
next
  case (Cons z zs)
  then have out: "\<forall>z \<in> set zs. distance_to z = Inr (f z) \<and> \<not> f z \<le> real_of_int (radius_meters z)"
    and zd: "distance_to z = Inr (f z)"
    and zout: "\<not> f z \<le> real_of_int (radius_meters z)" by simp_all
  show ?case
  proof (cases "f z < f n")
    case True
    from Cons.IH [OF out, of z] obtain m where
      m: "m \<in> set (z # zs)"
         "zone_loop distance_to zs (Some z) (Finite (f z)) = Inr (False, Some m, Finite (f m))"
         "\<forall>x \<in> set (z # zs). f m \<le> f x" by blast
    from m(3) True have "f m \<le> f n" by force
    with m True zd zout show ?thesis by (intro bexI [of _ m]) (auto simp: Let_def)
  next
    case False
    from Cons.IH [OF out, of n] obtain m where
      m: "m \<in> set (n # zs)"
         "zone_loop distance_to zs (Some n) (Finite (f n)) = Inr (False, Some m, Finite (f m))"
         "\<forall>x \<in> set (n # zs). f m \<le> f x" by blast
    from m(3) False have "f m \<le> f z" by force
    with m False zd zout show ?thesis by (intro bexI [of _ m]) (auto simp: Let_def)
  qed
qed

lemma zone_loop_outside_start:
  assumes "\<forall>z \<in> set zs. distance_to z = Inr (f z) \<and> \<not> f z \<le> real_of_int (radius_meters z)"
    and "zs \<noteq> []"
  shows "\<exists>m \<in> set zs.
           zone_loop distance_to zs None Infinity = Inr (False, Some m, Finite (f m))
           \<and> (\<forall>z \<in> set zs. f m \<le> f z)"
proof (cases zs)
  case Nil
  with assms(2) show ?thesis by simp
next
  case (Cons n ns)
  with assms(1) have
    out: "\<forall>z \<in> set ns. distance_to z = Inr (f z) \<and> \<not> f z \<le> real_of_int (radius_meters z)"
    and nd: "distance_to n = Inr (f n)"
    and nout: "\<not> f n \<le> real_of_int (radius_meters n)" by simp_all
  from zone_loop_outside [OF out, of n] nd nout show ?thesis
    unfolding Cons by (simp add: Let_def)
qed

text \<open>A distance that raises, at a zone the scan reaches, ends the scan with the exception.\<close>

lemma zone_loop_raises:
  assumes "\<forall>x \<in> set xs. distance_to x = Inr (f x) \<and> \<not> f x \<le> real_of_int (radius_meters x)"
    and "distance_to z = Inl e"
  shows "zone_loop distance_to (xs @ z # zs) nearest min_d = Inl e"
  using assms
  by (induction xs arbitrary: nearest min_d) (simp_all add: Let_def split_beta)

text \<open>
  \<open>GeoSpatialService.is_in_safe_zone\<close>, when the distance to each active zone is computed,
  returns true with the first zone that holds the point and its distance; false with a zone
  of least distance and that distance when none holds it; false, no zone and infinity when
  there is no active zone.
\<close>

lemma is_in_safe_zone_scan:
  assumes "\<forall>z \<in> set (active_zones d uid). zone_distance hav lat lon z = Inr (f z)"
  shows "(\<forall>z. find (\<lambda>z. f z \<le> real_of_int (radius_meters z)) (active_zones d uid) = Some z \<longrightarrow>
            is_in_safe_zone hav d uid lat lon = Inr (True, Some z, Finite (f z)))
       \<and> (find (\<lambda>z. f z \<le> real_of_int (radius_meters z)) (active_zones d uid) = None
            \<and> active_zones d uid \<noteq> [] \<longrightarrow>
            (\<exists>m \<in> set (active_zones d uid).
                is_in_safe_zone hav d uid lat lon = Inr (False, Some m, Finite (f m))
                \<and> (\<forall>z \<in> set (active_zones d uid). f m \<le> f z)))
       \<and> (active_zones d uid = [] \<longrightarrow>
            is_in_safe_zone hav d uid lat lon = Inr (False, None, Infinity))"
proof (intro conjI allI impI)
  fix z
  assume "find (\<lambda>z. f z \<le> real_of_int (radius_meters z)) (active_zones d uid) = Some z"
  with assms show "is_in_safe_zone hav d uid lat lon = Inr (True, Some z, Finite (f z))"
    unfolding is_in_safe_zone_def by (rule zone_loop_found)
next
  assume a: "find (\<lambda>z. f z \<le> real_of_int (radius_meters z)) (active_zones d uid) = None
               \<and> active_zones d uid \<noteq> []"
  then have "\<forall>z \<in> set (active_zones d uid). \<not> f z \<le> real_of_int (radius_meters z)"
    by (auto simp: find_None_iff)
  with assms have "\<forall>z \<in> set (active_zones d uid).
      zone_distance hav lat lon z = Inr (f z) \<and> \<not> f z \<le> real_of_int (radius_meters z)"
    by simp
  with a show "\<exists>m \<in> set (active_zones d uid).
                is_in_safe_zone hav d uid lat lon = Inr (False, Some m, Finite (f m))
                \<and> (\<forall>z \<in> set (active_zones d uid). f m \<le> f z)"
    unfolding is_in_safe_zone_def by (intro zone_loop_outside_start) simp_all
next
  assume "active_zones d uid = []"
  then show "is_in_safe_zone hav d uid lat lon = Inr (False, None, Infinity)"
    by (simp add: is_in_safe_zone_def)
qed

text \<open>
  \<open>AlertConsumer.check_safe_zone\<close>, the scan that \<open>save_location_track\<close> runs, finds the same
  first zone. When none holds the point it returns false and no zone, whatever zones there
  are.
\<close>

lemma check_zone_loop_find:
  assumes "\<forall>x \<in> set zs. distance_to x = Inr (f x)"
  shows "check_zone_loop distance_to zs =
           Inr (case find (\<lambda>z. f z \<le> real_of_int (radius_meters z)) zs of
                  None \<Rightarrow> (False, None) | Some z \<Rightarrow> (True, Some z))"
  using assms by (induction zs) auto

lemma check_safe_zone_scan:
  assumes "\<forall>z \<in> set (active_zones d (user_pk u)). zone_distance hav lat lon z = Inr (f z)"
  shows "check_safe_zone hav d u lat lon =
           Inr (case find (\<lambda>z. f z \<le> real_of_int (radius_meters z)) (active_zones d (user_pk u)) of
                  None \<Rightarrow> (False, None) | Some z \<Rightarrow> (True, Some z))"
  unfolding check_safe_zone_def using assms by (rule check_zone_loop_find)

text \<open>
  Claim C9, at an input where the session gateway departs from it. The user has two active
  zones of radius 500, \<open>Home\<close> and \<open>Office\<close>, and reports a point 1110 m from \<open>Office\<close> and
  109890 m from \<open>Home\<close>, outside both. \<open>AlertConsumer.check_safe_zone\<close> returns false with no
  zone and no distance, and the location track that the \<open>location_update\<close> handler stores has
  a null \<open>nearest_safe_zone\<close>. \<open>GeoSpatialService.is_in_safe_zone\<close> returns, for the same user
  and point, false with \<open>Office\<close> as the nearest zone and the distance 1110.
\<close>

theorem check_safe_zone_keeps_no_nearest_zone:
  "check_safe_zone ex_haversine
      (ex_zone_db [ex_zone 4 ''Home'' 11 10 500, ex_zone 5 ''Office'' 10 10 500]) ex_user
      (1001 / 100) 10
     = Inr (False, None)
   \<and> map (\<lambda>t. (track_alert t, track_is_in_safe_zone t, nearest_safe_zone t))
        (location_tracks (snd (handle_location_update ex_haversine 5
           (ex_zone_db [ex_zone 4 ''Home'' 11 10 500, ex_zone 5 ''Office'' 10 10 500]) ex_user
           (Some 7) (Some (1001 / 100)) (Some 10) None None None None)))
     = [(7, False, None)]
   \<and> is_in_safe_zone ex_haversine
      (ex_zone_db [ex_zone 4 ''Home'' 11 10 500, ex_zone 5 ''Office'' 10 10 500]) 1
      (1001 / 100) 10
     = Inr (False, Some (ex_zone 5 ''Office'' 10 10 500), Finite 1110)"
proof -
  let ?h = "ex_zone 4 ''Home'' 11 10 500" and ?o = "ex_zone 5 ''Office'' 10 10 500"
  let ?d = "ex_zone_db [?h, ?o]"
  let ?dz = "zone_distance ex_haversine (1001 / 100) 10"
  have u: "user_pk ex_user = 1" by (simp add: ex_user_def)
  have z: "active_zones ?d 1 = [?h, ?o]"
    by (simp add: active_zones_def ex_zone_db_def ex_zone_def)
  have dz: "?dz ?h = Inr 109890" "?dz ?o = Inr 1110"
    by (simp_all add: zone_distance_def ex_haversine_def ex_zone_def)
  have r: "radius_meters ?h = 500" "radius_meters ?o = 500"
    by (simp_all add: ex_zone_def)
  have c: "check_safe_zone ex_haversine ?d ex_user (1001 / 100) 10 = Inr (False, None)"
    unfolding check_safe_zone_def u z by (simp add: dz r)
  have s: "is_in_safe_zone ex_haversine ?d 1 (1001 / 100) 10 = Inr (False, Some ?o, Finite 1110)"
    unfolding is_in_safe_zone_def z by (simp add: dz r)
  have g: "lookup_alert_of_user ?d (Some 7) (user_pk ex_user) = Inr (ex_alert TRIGGERED)"
    by (simp add: lookup_alert_of_user_def get_alert_of_user_def ex_zone_db_def ex_db_def
          ex_alert_def ex_user_def new_alert_def)
  have i: "alert_id (ex_alert TRIGGERED) = 7" by (simp add: ex_alert_def)
  have l: "location_tracks ?d = []" by (simp add: ex_zone_db_def ex_db_def)
  have t: "map (\<lambda>t. (track_alert t, track_is_in_safe_zone t, nearest_safe_zone t))
        (location_tracks (snd (handle_location_update ex_haversine 5 ?d ex_user
           (Some 7) (Some (1001 / 100)) (Some 10) None None None None)))
     = [(7, False, None)]"
    by (simp add: handle_location_update_def save_location_track_def g c i l
          create_audit_log_def Let_def)
  show ?thesis using c t s by simp
qed

text \<open>
  The exception, on the same zones: for a point on the meridian opposite to \<open>Home\<close> the
  distance raises, the evaluation raises with it, and the handler stores and sends nothing.
\<close>

lemma safe_zone_scan_raises:
  "is_in_safe_zone ex_haversine
      (ex_zone_db [ex_zone 4 ''Home'' 11 10 500, ex_zone 5 ''Office'' 10 10 500]) 1 (- 11) 190
     = Inl ValueError
   \<and> handle_location_update ex_haversine 5
        (ex_zone_db [ex_zone 4 ''Home'' 11 10 500, ex_zone 5 ''Office'' 10 10 500]) ex_user
        (Some 7) (Some (- 11)) (Some 190) None None None None
     = ([], ex_zone_db [ex_zone 4 ''Home'' 11 10 500, ex_zone 5 ''Office'' 10 10 500])"
proof -
  let ?h = "ex_zone 4 ''Home'' 11 10 500" and ?o = "ex_zone 5 ''Office'' 10 10 500"
  let ?d = "ex_zone_db [?h, ?o]"
  have u: "user_pk ex_user = 1" by (simp add: ex_user_def)
  have z: "active_zones ?d 1 = [?h, ?o]"
    by (simp add: active_zones_def ex_zone_db_def ex_zone_def)
  have dz: "zone_distance ex_haversine (- 11) 190 ?h = Inl ValueError"
    by (simp add: zone_distance_def ex_haversine_def ex_zone_def)
  have c: "check_safe_zone ex_haversine ?d ex_user (- 11) 190 = Inl ValueError"
    unfolding check_safe_zone_def u z by (simp add: dz)
  have s: "is_in_safe_zone ex_haversine ?d 1 (- 11) 190 = Inl ValueError"
    unfolding is_in_safe_zone_def z by (simp add: dz)
  have g: "lookup_alert_of_user ?d (Some 7) (user_pk ex_user) = Inr (ex_alert TRIGGERED)"
    by (simp add: lookup_alert_of_user_def get_alert_of_user_def ex_zone_db_def ex_db_def
          ex_alert_def ex_user_def new_alert_def)
  have "handle_location_update ex_haversine 5 ?d ex_user
          (Some 7) (Some (- 11)) (Some 190) None None None None = ([], ?d)"
    by (simp add: handle_location_update_def save_location_track_def g c)
  with s show ?thesis by simp
qed

end
